theory Spec2Isabelle
  imports Main "HOL-Library.Sublist"
begin

section \<open>Python values and the operations the relay applies to them\<close>

text \<open>
  The Jira-to-GitLab relay (\<^verbatim>\<open>src/app2.py\<close>) reads a JSON document and never checks the
  shape of what it reads beyond \<^verbatim>\<open>or\<close>-defaults and two \<^verbatim>\<open>isinstance\<close> tests. The
  model therefore works on JSON values and writes out what Python does for every shape:
  truthiness, \<^verbatim>\<open>.get\<close> (an \<^verbatim>\<open>AttributeError\<close> on anything that is not a dict),
  the operator \<^verbatim>\<open>in\<close>, hashing of dictionary and set keys.

  A JSON object is an association list read with \<open>map_of\<close>. A string is the list of
  its code points, each a \<open>char\<close>, hence below 256; numbers are integers (a JSON number
  with a fraction is not represented).
\<close>

datatype json =
    JNull
  | JBool bool
  | JInt int
  | JStr string
  | JList "json list"
  | JObj "(string \<times> json) list"

datatype error =
    HTTPException int
  | AttributeError
  | TypeError
  | KeyError
  | ValueError
  | JSONDecodeError
  | TransportError
  | SqliteError
  | OverflowError

text \<open>
  An exception ends the computation: \<open>ebind m f\<close> runs \<open>f\<close> on the value of \<open>m\<close>
  unless \<open>m\<close> raised.
\<close>

definition ebind :: "error + 'a \<Rightarrow> ('a \<Rightarrow> error + 'b) \<Rightarrow> error + 'b" where
  "ebind m f = (case m of Inl e \<Rightarrow> Inl e | Inr x \<Rightarrow> f x)"

text \<open>
  Two builtins of the Python runtime are taken as parameters: \<^verbatim>\<open>str()\<close> as an f-string
  applies it to a value that is not already a string, and \<^verbatim>\<open>int()\<close> on a string.
\<close>

record builtins =
  py_str :: "json \<Rightarrow> string"
  py_int_str :: "string \<Rightarrow> int option"

fun truthy :: "json \<Rightarrow> bool" where
  "truthy JNull = False"
| "truthy (JBool b) = b"
| "truthy (JInt n) = (n \<noteq> 0)"
| "truthy (JStr s) = (s \<noteq> [])"
| "truthy (JList xs) = (xs \<noteq> [])"
| "truthy (JObj kvs) = (kvs \<noteq> [])"

definition py_or :: "json \<Rightarrow> json \<Rightarrow> json" where
  "py_or a b = (if truthy a then a else b)"

fun py_get :: "json \<Rightarrow> string \<Rightarrow> error + json" where
  "py_get (JObj kvs) k = Inr (case map_of kvs k of None \<Rightarrow> JNull | Some v \<Rightarrow> v)"
| "py_get _ k = Inl AttributeError"

definition get_or :: "json \<Rightarrow> string \<Rightarrow> json \<Rightarrow> error + json" where
  "get_or d k dflt = ebind (py_get d k) (\<lambda>v. Inr (py_or v dflt))"

fun py_format :: "builtins \<Rightarrow> json \<Rightarrow> string" where
  "py_format py (JStr s) = s"
| "py_format py v = py_str py v"

fun py_int :: "builtins \<Rightarrow> json \<Rightarrow> error + int" where
  "py_int py (JInt n) = Inr n"
| "py_int py (JBool b) = Inr (if b then 1 else 0)"
| "py_int py (JStr s) = (case py_int_str py s of None \<Rightarrow> Inl ValueError | Some n \<Rightarrow> Inr n)"
| "py_int py _ = Inl TypeError"

text \<open>
  \<^verbatim>\<open>str.strip()\<close> removes leading and trailing whitespace. The whitespace characters
  are those of \<^verbatim>\<open>str.isspace\<close> below 256: tab, line feed, vertical tab, form feed,
  carriage return, the four separators 28 to 31, space, next line (133, U+0085) and the
  no-break space (160, U+00A0).
\<close>

definition py_isspace :: "char \<Rightarrow> bool" where
  "py_isspace c = (of_char c \<in> {9, 10, 11, 12, 13, 28, 29, 30, 31, 32, 133, 160 :: nat})"

definition py_strip :: "string \<Rightarrow> string" where
  "py_strip s = rev (dropWhile py_isspace (rev (dropWhile py_isspace s)))"

fun split_on :: "char \<Rightarrow> string \<Rightarrow> string list" where
  "split_on c [] = [[]]"
| "split_on c (x # xs) =
     (if x = c then [] # split_on c xs
      else (case split_on c xs of [] \<Rightarrow> [[x]] | w # ws \<Rightarrow> (x # w) # ws))"

fun join :: "string \<Rightarrow> string list \<Rightarrow> string" where
  "join sep [] = []"
| "join sep [x] = x"
| "join sep (x # y # ys) = x @ sep @ join sep (y # ys)"

section \<open>Configuration\<close>

text \<open>
  The module reads its configuration from the process environment once, at import.
  The record holds what \<^verbatim>\<open>os.getenv(name, default)\<close> returned for each variable (for
  \<^verbatim>\<open>JIRA_TO_GITLAB_USER_ID_JSON\<close>: what \<^verbatim>\<open>json.loads\<close> made of it); the module-level
  constants are computed from it as lines 13 to 27 do.
\<close>

record environ =
  env_GITLAB_BASE_URL :: string
  env_GITLAB_PROJECT_ID :: string
  env_GITLAB_TOKEN :: string
  env_JIRA_SHARED_SECRET :: string
  env_ALLOWED_ASSIGNEES :: string
  env_JIRA_TO_GITLAB_USER_ID :: json
  env_DONE_STATUSES :: string
  env_LABEL_PREFIX_STATUS :: string
  env_LABEL_OUT_OF_SCOPE :: string
  env_LABEL_IN_SCOPE :: string
  env_SYNC_MARKER_PREFIX :: string

definition csv_items :: "string \<Rightarrow> string list" where
  "csv_items s = map py_strip (filter (\<lambda>x. py_strip x \<noteq> []) (split_on (CHR '','') s))"

definition GITLAB_BASE_URL :: "environ \<Rightarrow> string" where
  "GITLAB_BASE_URL cfg = rev (dropWhile (\<lambda>c. c = CHR ''/'') (rev (env_GITLAB_BASE_URL cfg)))"

definition GITLAB_PROJECT_ID :: "environ \<Rightarrow> string" where
  "GITLAB_PROJECT_ID cfg = env_GITLAB_PROJECT_ID cfg"

definition GITLAB_TOKEN :: "environ \<Rightarrow> string" where
  "GITLAB_TOKEN cfg = env_GITLAB_TOKEN cfg"

definition JIRA_SHARED_SECRET :: "environ \<Rightarrow> string" where
  "JIRA_SHARED_SECRET cfg = env_JIRA_SHARED_SECRET cfg"

definition ALLOWED_ASSIGNEES :: "environ \<Rightarrow> string list" where
  "ALLOWED_ASSIGNEES cfg = csv_items (env_ALLOWED_ASSIGNEES cfg)"

definition JIRA_TO_GITLAB_USER_ID :: "environ \<Rightarrow> json" where
  "JIRA_TO_GITLAB_USER_ID cfg = env_JIRA_TO_GITLAB_USER_ID cfg"

definition DONE_STATUSES :: "environ \<Rightarrow> string set" where
  "DONE_STATUSES cfg = set (csv_items (env_DONE_STATUSES cfg))"

definition LABEL_PREFIX_STATUS :: "environ \<Rightarrow> string" where
  "LABEL_PREFIX_STATUS cfg = env_LABEL_PREFIX_STATUS cfg"

definition LABEL_OUT_OF_SCOPE :: "environ \<Rightarrow> string" where
  "LABEL_OUT_OF_SCOPE cfg = env_LABEL_OUT_OF_SCOPE cfg"

definition LABEL_IN_SCOPE :: "environ \<Rightarrow> string" where
  "LABEL_IN_SCOPE cfg = env_LABEL_IN_SCOPE cfg"

definition SYNC_MARKER_PREFIX :: "environ \<Rightarrow> string" where
  "SYNC_MARKER_PREFIX cfg = env_SYNC_MARKER_PREFIX cfg"

text \<open>The environment in which no variable is set: every default of lines 13 to 27.\<close>

definition default_environ :: environ where
  "default_environ = \<lparr>
     env_GITLAB_BASE_URL = [],
     env_GITLAB_PROJECT_ID = [],
     env_GITLAB_TOKEN = [],
     env_JIRA_SHARED_SECRET = [],
     env_ALLOWED_ASSIGNEES = [],
     env_JIRA_TO_GITLAB_USER_ID = JObj [],
     env_DONE_STATUSES = ''Done,Closed,Resolved'',
     env_LABEL_PREFIX_STATUS = ''jira:status:'',
     env_LABEL_OUT_OF_SCOPE = ''sync:out-of-scope'',
     env_LABEL_IN_SCOPE = ''sync:in-scope'',
     env_SYNC_MARKER_PREFIX = ''JIRA_KEY:'' \<rparr>"

section \<open>Event normalizer\<close>

text \<open>
  \<^verbatim>\<open>_fingerprint\<close> (lines 61 to 66). Each \<^verbatim>\<open>.get\<close> is on whatever the previous
  step produced, so a payload that is not an object, or a truthy \<^verbatim>\<open>issue\<close> or
  \<^verbatim>\<open>fields\<close> that is not an object, raises \<^verbatim>\<open>AttributeError\<close>.
\<close>

definition fingerprint :: "builtins \<Rightarrow> json \<Rightarrow> error + string" where
  "fingerprint py payload =
     ebind (get_or payload ''issue'' (JObj [])) (\<lambda>issue.
     ebind (get_or issue ''key'' (JStr [])) (\<lambda>k.
     ebind (get_or issue ''fields'' (JObj [])) (\<lambda>flds.
     ebind (get_or flds ''updated'' (JStr [])) (\<lambda>updated.
     ebind (py_get payload ''webhookEvent'') (\<lambda>we.
     ebind (if truthy we then Inr we else get_or payload ''issue_event_type_name'' (JStr []))
       (\<lambda>event_type.
     Inr (py_format py event_type @ ''|'' @ py_format py k @ ''|'' @ py_format py updated)))))))"

text \<open>\<^verbatim>\<open>_jira_extract\<close> (lines 117 to 143); the returned dict is a record.\<close>

record jira_data =
  key :: json
  summary :: json
  description :: json
  status :: json
  assignee :: json
  labels :: "json list"

definition jira_assignee :: "json \<Rightarrow> error + json" where
  "jira_assignee assignee_obj =
     (if truthy assignee_obj then
        ebind (py_get assignee_obj ''name'') (\<lambda>n.
        if truthy n then Inr n else
        ebind (py_get assignee_obj ''key'') (\<lambda>k.
        if truthy k then Inr k else py_get assignee_obj ''accountId''))
      else Inr JNull)"

definition jira_extract :: "json \<Rightarrow> error + jira_data" where
  "jira_extract payload =
     ebind (get_or payload ''issue'' (JObj [])) (\<lambda>issue.
     ebind (get_or issue ''fields'' (JObj [])) (\<lambda>flds.
     ebind (py_get issue ''key'') (\<lambda>k.
     ebind (get_or flds ''summary'' (JStr [])) (\<lambda>summ.
     ebind (py_get flds ''description'') (\<lambda>desc.
     ebind (get_or flds ''status'' (JObj [])) (\<lambda>status_obj.
     ebind (get_or status_obj ''name'' (JStr [])) (\<lambda>st.
     ebind (py_get flds ''assignee'') (\<lambda>assignee_obj.
     ebind (jira_assignee assignee_obj) (\<lambda>asg.
     ebind (get_or flds ''labels'' (JList [])) (\<lambda>lbls.
     Inr \<lparr> key = k, summary = summ,
           description = (if desc = JNull then JStr [] else desc),
           status = st, assignee = asg,
           labels = (case lbls of JList ls \<Rightarrow> ls | _ \<Rightarrow> []) \<rparr>))))))))))"

section \<open>Scope and transform engine\<close>

text \<open>
  \<^verbatim>\<open>_build_description\<close> (lines 145 to 151). \<^verbatim>\<open>marker in jira_desc\<close> is substring
  containment on a string, element membership on a list, key membership on a dict, and a
  \<^verbatim>\<open>TypeError\<close> on the rest; \<^verbatim>\<open>.strip()\<close> exists on strings only.
\<close>

definition sync_marker :: "environ \<Rightarrow> builtins \<Rightarrow> json \<Rightarrow> string" where
  "sync_marker cfg py jira_key = SYNC_MARKER_PREFIX cfg @ '' '' @ py_format py jira_key"

fun py_contains :: "json \<Rightarrow> string \<Rightarrow> error + bool" where
  "py_contains (JStr d) m = Inr (sublist m d)"
| "py_contains (JList xs) m = Inr (JStr m \<in> set xs)"
| "py_contains (JObj kvs) m = Inr (m \<in> set (map fst kvs))"
| "py_contains _ m = Inl TypeError"

definition build_description :: "environ \<Rightarrow> builtins \<Rightarrow> json \<Rightarrow> json \<Rightarrow> error + json" where
  "build_description cfg py jira_key jira_desc =
     (let marker = sync_marker cfg py jira_key in
      case py_contains jira_desc marker of Inl e \<Rightarrow> Inl e
      | Inr True \<Rightarrow> Inr jira_desc
      | Inr False \<Rightarrow>
          (case jira_desc of
             JStr d \<Rightarrow>
               if py_strip d \<noteq> []
               then Inr (JStr (d @ [CHR 10, CHR 10] @ ''---'' @ [CHR 10] @ marker))
               else Inr (JStr marker)
           | _ \<Rightarrow> Inl AttributeError))"

text \<open>
  \<^verbatim>\<open>_labels_merge\<close> (lines 153 to 171): the three loops and the two filters, in the
  order of the source. \<open>uniq\<close> is the last loop, with its \<open>seen\<close> set.
\<close>

fun stripped_labels :: "json list \<Rightarrow> string list" where
  "stripped_labels [] = []"
| "stripped_labels (JStr l # ls) =
     (if py_strip l \<noteq> [] then py_strip l # stripped_labels ls else stripped_labels ls)"
| "stripped_labels (_ # ls) = stripped_labels ls"

fun uniq :: "string set \<Rightarrow> string list \<Rightarrow> string list" where
  "uniq seen [] = []"
| "uniq seen (l # ls) = (if l \<notin> seen then l # uniq (insert l seen) ls else uniq seen ls)"

definition status_label :: "environ \<Rightarrow> builtins \<Rightarrow> json \<Rightarrow> string" where
  "status_label cfg py st =
     (if truthy st then LABEL_PREFIX_STATUS cfg @ py_format py st
      else LABEL_PREFIX_STATUS cfg @ ''unknown'')"

definition labels_merge :: "environ \<Rightarrow> builtins \<Rightarrow> json list \<Rightarrow> json \<Rightarrow> bool \<Rightarrow> string list" where
  "labels_merge cfg py jira_labels st in_scope =
     (let out1 = stripped_labels jira_labels;
          out2 = filter (\<lambda>l. \<not> prefix (LABEL_PREFIX_STATUS cfg) l) out1 @ [status_label cfg py st];
          out3 = filter (\<lambda>l. l \<noteq> LABEL_OUT_OF_SCOPE cfg \<and> l \<noteq> LABEL_IN_SCOPE cfg) out2
                 @ [if in_scope then LABEL_IN_SCOPE cfg else LABEL_OUT_OF_SCOPE cfg]
      in uniq {} out3)"

text \<open>\<^verbatim>\<open>_is_in_scope\<close> (lines 219 to 224); \<^verbatim>\<open>in\<close> on a list compares with \<^verbatim>\<open>==\<close>.\<close>

definition is_in_scope :: "environ \<Rightarrow> json \<Rightarrow> bool" where
  "is_in_scope cfg asg =
     (if \<not> truthy asg then False
      else if ALLOWED_ASSIGNEES cfg = [] then True
      else (case asg of JStr a \<Rightarrow> a \<in> set (ALLOWED_ASSIGNEES cfg) | _ \<Rightarrow> False))"

text \<open>
  \<^verbatim>\<open>_map_assignee_to_gitlab_ids\<close> (lines 226 to 237). The lookup table is whatever
  \<^verbatim>\<open>json.loads\<close> returned: \<^verbatim>\<open>.get\<close> needs a dict, and hashes its argument.
\<close>

definition map_assignee_to_gitlab_ids ::
    "environ \<Rightarrow> builtins \<Rightarrow> json \<Rightarrow> bool \<Rightarrow> error + int list" where
  "map_assignee_to_gitlab_ids cfg py asg in_scope =
     (if \<not> in_scope then Inr []
      else if \<not> truthy asg then Inr []
      else (case JIRA_TO_GITLAB_USER_ID cfg of
              JObj tbl \<Rightarrow>
                (case asg of
                   JList _ \<Rightarrow> Inl TypeError
                 | JObj _ \<Rightarrow> Inl TypeError
                 | JStr a \<Rightarrow>
                     (case map_of tbl a of
                        None \<Rightarrow> Inr []
                      | Some v \<Rightarrow>
                          if v = JNull then Inr []
                          else (case py_int py v of Inl _ \<Rightarrow> Inr [] | Inr n \<Rightarrow> Inr [n]))
                 | _ \<Rightarrow> Inr [])
            | _ \<Rightarrow> Inl AttributeError))"

text \<open>\<^verbatim>\<open>_state_event_from_status\<close> (lines 239 to 244); \<^verbatim>\<open>in\<close> on a set hashes.\<close>

definition state_event_from_status :: "environ \<Rightarrow> json \<Rightarrow> error + string option" where
  "state_event_from_status cfg st =
     (if \<not> truthy st then Inr None
      else (case st of
              JList _ \<Rightarrow> Inl TypeError
            | JObj _ \<Rightarrow> Inl TypeError
            | JStr s \<Rightarrow> if s \<in> DONE_STATUSES cfg then Inr (Some ''close'') else Inr (Some ''reopen'')
            | _ \<Rightarrow> Inr (Some ''reopen'')))"

section \<open>Durable store\<close>

text \<open>
  The two SQLite tables of \<^verbatim>\<open>_db\<close> (lines 38 to 59), each a list of rows with its
  primary key first. \<^verbatim>\<open>PRIMARY KEY\<close> makes the keys of a stored table distinct;
  the operations are written on any list of rows, and that they keep the keys distinct
  is proved below.
\<close>

record link_row =
  gitlab_project_id :: string
  gitlab_issue_iid :: int
  last_synced_at :: string
  sync_state :: string

record db =
  links :: "(string \<times> link_row) list"
  processed :: "(string \<times> string) list"

text \<open>\<^verbatim>\<open>_is_processed\<close> (lines 68 to 74).\<close>

definition is_processed :: "db \<Rightarrow> string \<Rightarrow> bool" where
  "is_processed d fp = (fp \<in> set (map fst (processed d)))"

text \<open>
  \<^verbatim>\<open>_mark_processed\<close> (lines 76 to 82): \<^verbatim>\<open>INSERT OR IGNORE\<close>. The timestamp
  \<open>now\<close> is what \<^verbatim>\<open>_now_iso()\<close> returned.
\<close>

definition mark_processed :: "db \<Rightarrow> string \<Rightarrow> string \<Rightarrow> db" where
  "mark_processed d fp now =
     (if fp \<in> set (map fst (processed d)) then d
      else d\<lparr>processed := processed d @ [(fp, now)]\<rparr>)"

text \<open>\<^verbatim>\<open>_get_link\<close> (lines 84 to 96).\<close>

definition get_link :: "db \<Rightarrow> string \<Rightarrow> (string \<times> int \<times> string) option" where
  "get_link d jk =
     (case map_of (links d) jk of
        None \<Rightarrow> None
      | Some row \<Rightarrow> Some (gitlab_project_id row, gitlab_issue_iid row, sync_state row))"

text \<open>
  The \<^verbatim>\<open>sqlite3\<close> module binds a Python integer as a 64-bit integer and raises
  \<^verbatim>\<open>OverflowError\<close> on one that does not fit.
\<close>

definition in_int64 :: "int \<Rightarrow> bool" where
  "in_int64 n \<longleftrightarrow> - (2 ^ 63) \<le> n \<and> n < 2 ^ 63"

text \<open>
  \<^verbatim>\<open>_upsert_link\<close> (lines 98 to 115). The statement is
  \<^verbatim>\<open>INSERT ... ON CONFLICT(jira_key) DO UPDATE\<close> of all four other columns
  (\<open>upsert_row\<close>); binding the issue iid to it comes first, and nothing is written when
  that raises.
\<close>

definition upsert_row :: "environ \<Rightarrow> db \<Rightarrow> string \<Rightarrow> int \<Rightarrow> string \<Rightarrow> string \<Rightarrow> db" where
  "upsert_row cfg d jk iid st now =
     (let row = \<lparr> gitlab_project_id = GITLAB_PROJECT_ID cfg, gitlab_issue_iid = iid,
                   last_synced_at = now, sync_state = st \<rparr>
      in d\<lparr>links :=
           (if jk \<in> set (map fst (links d))
            then map (\<lambda>(k, r). if k = jk then (k, row) else (k, r)) (links d)
            else links d @ [(jk, row)])\<rparr>)"

definition upsert_link ::
    "environ \<Rightarrow> db \<Rightarrow> string \<Rightarrow> int \<Rightarrow> string \<Rightarrow> string \<Rightarrow> error + db" where
  "upsert_link cfg d jk iid st now =
     (if in_int64 iid then Inr (upsert_row cfg d jk iid st now) else Inl OverflowError)"

text \<open>
  The key reaches both functions as the Python value read from the payload. The
  \<^verbatim>\<open>sqlite3\<close> module binds a string as text and an integer (a boolean is one) as an
  integer, which the text affinity of the column \<^verbatim>\<open>jira_key\<close> turns into its decimal
  text; it raises \<^verbatim>\<open>OverflowError\<close> on an integer outside 64 bits, and it raises on a
  list or a dict. (\<^verbatim>\<open>None\<close> is falsy and is never bound: the handler returns before.)
  \<^verbatim>\<open>_get_link\<close> is the first to bind the key, so \<^verbatim>\<open>_upsert_link\<close> binds only keys
  that passed.
\<close>

fun sql_text :: "builtins \<Rightarrow> json \<Rightarrow> error + string" where
  "sql_text py (JStr s) = Inr s"
| "sql_text py (JInt n) = (if in_int64 n then Inr (py_str py (JInt n)) else Inl OverflowError)"
| "sql_text py (JBool b) = Inr (py_str py (JInt (if b then 1 else 0)))"
| "sql_text py _ = Inl SqliteError"

section \<open>Target-system calls\<close>

text \<open>
  A call is recorded with the form \<^verbatim>\<open>data\<close> it sends. The answer of the target system is
  an input of the model: no answer at all (\<^verbatim>\<open>httpx\<close> raises), or a status code and the
  body as \<^verbatim>\<open>r.json()\<close> parses it (\<open>None\<close> when it is not JSON).
\<close>

datatype form_value = FormIds "int list" | FormStr string

record form_data =
  data_title :: json
  data_description :: json
  data_labels :: string
  data_assignee_ids :: "form_value option"
  data_state_event :: "string option"

datatype gitlab_call = POST_issues form_data | PUT_issue int form_data

datatype reply = NoReply | Reply int "json option"

fun py_getitem :: "json \<Rightarrow> string \<Rightarrow> error + json" where
  "py_getitem (JObj kvs) k = (case map_of kvs k of None \<Rightarrow> Inl KeyError | Some v \<Rightarrow> Inr v)"
| "py_getitem _ k = Inl TypeError"

definition truthy_opt :: "string option \<Rightarrow> string option" where
  "truthy_opt s = (case s of None \<Rightarrow> None | Some x \<Rightarrow> if x \<noteq> [] then Some x else None)"

text \<open>
  \<^verbatim>\<open>_gitlab_create_issue\<close> (lines 182 to 197): the form it builds (lines 183 to 191),
  what it makes of the answer (lines 195 to 197), and the two together.
\<close>

definition create_data ::
    "json \<Rightarrow> json \<Rightarrow> string list \<Rightarrow> int list \<Rightarrow> string option \<Rightarrow> form_data" where
  "create_data title descr lbls assignee_ids state_event =
     \<lparr> data_title = title, data_description = descr,
       data_labels = (if lbls \<noteq> [] then join '','' lbls else []),
       data_assignee_ids = (if assignee_ids \<noteq> [] then Some (FormIds assignee_ids) else None),
       data_state_event = truthy_opt state_event \<rparr>"

definition create_result :: "builtins \<Rightarrow> reply \<Rightarrow> error + int" where
  "create_result py r =
     (case r of
        NoReply \<Rightarrow> Inl TransportError
      | Reply status_code js \<Rightarrow>
          if status_code \<ge> 300 then Inl (HTTPException 502)
          else (case js of
                  None \<Rightarrow> Inl JSONDecodeError
                | Some b \<Rightarrow> ebind (py_getitem b ''iid'') (py_int py)))"

definition gitlab_create_issue ::
    "builtins \<Rightarrow> json \<Rightarrow> json \<Rightarrow> string list \<Rightarrow> int list \<Rightarrow> string option \<Rightarrow> reply
      \<Rightarrow> gitlab_call \<times> (error + int)" where
  "gitlab_create_issue py title descr lbls assignee_ids state_event r =
     (POST_issues (create_data title descr lbls assignee_ids state_event), create_result py r)"

text \<open>
  \<^verbatim>\<open>_gitlab_update_issue\<close> (lines 199 to 217), in the same three parts. An empty
  \<^verbatim>\<open>assignee_ids\<close> is sent as the empty string (lines 206 to 209).
\<close>

definition update_data ::
    "json \<Rightarrow> json \<Rightarrow> string list \<Rightarrow> int list \<Rightarrow> string option \<Rightarrow> form_data" where
  "update_data title descr lbls assignee_ids state_event =
     \<lparr> data_title = title, data_description = descr,
       data_labels = (if lbls \<noteq> [] then join '','' lbls else []),
       data_assignee_ids =
         (if assignee_ids \<noteq> [] then Some (FormIds assignee_ids) else Some (FormStr [])),
       data_state_event = truthy_opt state_event \<rparr>"

definition update_result :: "reply \<Rightarrow> error + unit" where
  "update_result r =
     (case r of
        NoReply \<Rightarrow> Inl TransportError
      | Reply status_code js \<Rightarrow>
          if status_code \<ge> 300 then Inl (HTTPException 502) else Inr ())"

definition gitlab_update_issue ::
    "int \<Rightarrow> json \<Rightarrow> json \<Rightarrow> string list \<Rightarrow> int list \<Rightarrow> string option \<Rightarrow> reply
      \<Rightarrow> gitlab_call \<times> (error + unit)" where
  "gitlab_update_issue iid title descr lbls assignee_ids state_event r =
     (PUT_issue iid (update_data title descr lbls assignee_ids state_event), update_result r)"

section \<open>Sync orchestrator\<close>

text \<open>
  One delivery: the request as the endpoint reads it, and what the outside world returns
  while it is handled (the answer of the target system, and the clock at the two writes).
\<close>

record request =
  x_sync_token :: "string option"
  query_token :: "string option"
  body :: "json option"

record world =
  gitlab_reply :: reply
  now_link :: string
  now_processed :: string

record WebhookResponse =
  ok :: bool
  action :: string
  jira_key :: "json option"
  gitlab_iid :: "int option"

type_synonym outcome = "db \<times> gitlab_call list \<times> (error + WebhookResponse)"

text \<open>The locals of lines 271 to 278; none of these lines writes to the store.\<close>

record sync_locals =
  l_key_text :: string
  l_in_scope :: bool
  l_link :: "(string \<times> int \<times> string) option"
  l_title :: json
  l_description :: json
  l_state_event :: "string option"
  l_labels :: "string list"
  l_assignee_ids :: "int list"

definition compute_locals :: "environ \<Rightarrow> builtins \<Rightarrow> db \<Rightarrow> jira_data \<Rightarrow> error + sync_locals" where
  "compute_locals cfg py d data =
     (let in_scope = is_in_scope cfg (assignee data) in
      ebind (sql_text py (key data)) (\<lambda>jk.
      ebind (build_description cfg py (key data) (py_or (description data) (JStr []))) (\<lambda>descr.
      ebind (state_event_from_status cfg (status data)) (\<lambda>state_event.
      ebind (map_assignee_to_gitlab_ids cfg py (assignee data) in_scope) (\<lambda>assignee_ids.
      Inr \<lparr> l_key_text = jk, l_in_scope = in_scope, l_link = get_link d jk,
            l_title = py_or (summary data) (key data), l_description = descr,
            l_state_event = state_event,
            l_labels = labels_merge cfg py (labels data) (status data) in_scope,
            l_assignee_ids = assignee_ids \<rparr>)))))"

text \<open>Lines 280 to 308: create, update or skip.\<close>

definition sync_issue ::
    "environ \<Rightarrow> builtins \<Rightarrow> db \<Rightarrow> world \<Rightarrow> string \<Rightarrow> jira_data \<Rightarrow> sync_locals \<Rightarrow> outcome" where
  "sync_issue cfg py d w fp data l =
     (case l_link l of
        None \<Rightarrow>
          if \<not> l_in_scope l then
            (mark_processed d fp (now_processed w), [],
             Inr \<lparr> ok = True, action = ''skip_create_out_of_scope'',
                   jira_key = Some (key data), gitlab_iid = None \<rparr>)
          else
            (case gitlab_create_issue py (l_title l) (l_description l) (l_labels l)
                    (l_assignee_ids l)
                    (if l_state_event l = Some ''close'' then Some ''close'' else None)
                    (gitlab_reply w) of
               (call, Inl e) \<Rightarrow> (d, [call], Inl e)
             | (call, Inr iid) \<Rightarrow>
                 (case upsert_link cfg d (l_key_text l) iid ''in-scope'' (now_link w) of
                    Inl e \<Rightarrow> (d, [call], Inl e)
                  | Inr d1 \<Rightarrow>
                      (mark_processed d1 fp (now_processed w),
                       [call],
                       Inr \<lparr> ok = True, action = ''created'',
                             jira_key = Some (key data), gitlab_iid = Some iid \<rparr>)))
      | Some (_, iid, _) \<Rightarrow>
          (case gitlab_update_issue iid (l_title l) (l_description l) (l_labels l)
                  (l_assignee_ids l) (l_state_event l) (gitlab_reply w) of
             (call, Inl e) \<Rightarrow> (d, [call], Inl e)
           | (call, Inr _) \<Rightarrow>
               (case upsert_link cfg d (l_key_text l) iid
                       (if l_in_scope l then ''in-scope'' else ''out-of-scope'') (now_link w) of
                  Inl e \<Rightarrow> (d, [call], Inl e)
                | Inr d1 \<Rightarrow>
                    (mark_processed d1 fp (now_processed w),
                     [call],
                     Inr \<lparr> ok = True, action = ''updated'',
                           jira_key = Some (key data), gitlab_iid = Some iid \<rparr>))))"

text \<open>
  \<^verbatim>\<open>jira_webhook\<close> (lines 250 to 308). The result is the store after the request, the
  calls made to the target system, and the response or the exception that ended the
  request. The response is the arguments given to \<^verbatim>\<open>WebhookResponse\<close>; what the
  response model makes of them, once the store is written, is outside the model.
\<close>

definition token_ok :: "environ \<Rightarrow> request \<Rightarrow> bool" where
  "token_ok cfg req =
     (x_sync_token req = Some (JIRA_SHARED_SECRET cfg)
      \<or> query_token req = Some (JIRA_SHARED_SECRET cfg))"

definition process_payload ::
    "environ \<Rightarrow> builtins \<Rightarrow> db \<Rightarrow> world \<Rightarrow> json \<Rightarrow> outcome" where
  "process_payload cfg py d w payload =
     (case fingerprint py payload of
        Inl e \<Rightarrow> (d, [], Inl e)
      | Inr fp \<Rightarrow>
          if is_processed d fp then
            (d, [], Inr \<lparr> ok = True, action = ''dedup'', jira_key = None, gitlab_iid = None \<rparr>)
          else
            (case jira_extract payload of
               Inl e \<Rightarrow> (d, [], Inl e)
             | Inr data \<Rightarrow>
                 if \<not> truthy (key data) then
                   (mark_processed d fp (now_processed w), [],
                    Inr \<lparr> ok = True, action = ''skip_no_key'',
                          jira_key = None, gitlab_iid = None \<rparr>)
                 else
                   (case compute_locals cfg py d data of
                      Inl e \<Rightarrow> (d, [], Inl e)
                    | Inr l \<Rightarrow> sync_issue cfg py d w fp data l)))"

definition jira_webhook ::
    "environ \<Rightarrow> builtins \<Rightarrow> db \<Rightarrow> request \<Rightarrow> world \<Rightarrow> outcome" where
  "jira_webhook cfg py d req w =
     (if JIRA_SHARED_SECRET cfg \<noteq> [] \<and> \<not> token_ok cfg req then
        (d, [], Inl (HTTPException 401))
      else if GITLAB_BASE_URL cfg = [] \<or> GITLAB_PROJECT_ID cfg = [] \<or> GITLAB_TOKEN cfg = [] then
        (d, [], Inl (HTTPException 500))
      else
        (case body req of
           None \<Rightarrow> (d, [], Inl JSONDecodeError)
         | Some payload \<Rightarrow> process_payload cfg py d w payload))"

text \<open>A sequence of deliveries, handled one after the other.\<close>

fun deliveries ::
    "environ \<Rightarrow> builtins \<Rightarrow> db \<Rightarrow> (request \<times> world) list \<Rightarrow> db \<times> outcome list" where
  "deliveries cfg py d [] = (d, [])"
| "deliveries cfg py d ((req, w) # rest) =
     (let out = jira_webhook cfg py d req w;
          (d', outs) = deliveries cfg py (fst out) rest
      in (d', out # outs))"

section \<open>Notions used to state the properties\<close>

text \<open>
  The raw field of a document at a path: the value found by descending through objects,
  \<open>JNull\<close> as soon as a step is missing or the value at hand is not an object.
\<close>

fun raw_field :: "json \<Rightarrow> string list \<Rightarrow> json" where
  "raw_field v [] = v"
| "raw_field (JObj kvs) (k # ks) = (case map_of kvs k of None \<Rightarrow> JNull | Some v \<Rightarrow> raw_field v ks)"
| "raw_field _ (k # ks) = JNull"

text \<open>
  The source labels that survive both filters of \<^verbatim>\<open>_labels_merge\<close>: stripped, not
  empty, not status-prefixed, not a scope marker.
\<close>

definition kept_labels :: "environ \<Rightarrow> json list \<Rightarrow> string list" where
  "kept_labels cfg ls =
     filter (\<lambda>l. \<not> prefix (LABEL_PREFIX_STATUS cfg) l
                 \<and> l \<noteq> LABEL_OUT_OF_SCOPE cfg \<and> l \<noteq> LABEL_IN_SCOPE cfg)
       (stripped_labels ls)"

text \<open>
  The fingerprint as a formula over the raw fields of the payload: the event type, taken
  from \<^verbatim>\<open>webhookEvent\<close> and, when that is falsy, from \<^verbatim>\<open>issue_event_type_name\<close>, then
  the issue key, then the \<^verbatim>\<open>updated\<close> stamp of the issue fields, each the empty string
  when falsy, the three separated by \<^verbatim>\<open>|\<close>.
\<close>

definition fingerprint_of_fields :: "builtins \<Rightarrow> json \<Rightarrow> string" where
  "fingerprint_of_fields py p =
     py_format py (py_or (raw_field p [''webhookEvent''])
                    (py_or (raw_field p [''issue_event_type_name'']) (JStr [])))
     @ ''|'' @ py_format py (py_or (raw_field p [''issue'', ''key'']) (JStr []))
     @ ''|'' @ py_format py (py_or (raw_field p [''issue'', ''fields'', ''updated'']) (JStr []))"

text \<open>
  The fingerprint of a delivery, when its body is a document and \<^verbatim>\<open>_fingerprint\<close>
  returns on it.
\<close>

definition delivery_fingerprint :: "builtins \<Rightarrow> request \<Rightarrow> string option" where
  "delivery_fingerprint py req =
     (case body req of
        None \<Rightarrow> None
      | Some p \<Rightarrow> (case fingerprint py p of Inl e \<Rightarrow> None | Inr fp \<Rightarrow> Some fp))"

text \<open>
  The response of the dedup short-circuit (line 263).
\<close>

definition dedup_response :: WebhookResponse where
  "dedup_response = \<lparr> ok = True, action = ''dedup'', jira_key = None, gitlab_iid = None \<rparr>"







text \<open>
  The column \<^verbatim>\<open>gitlab_issue_iid\<close> is an \<^verbatim>\<open>INTEGER\<close>: every stored iid fits 64 bits.
\<close>

definition stored_iids_fit :: "db \<Rightarrow> bool" where
  "stored_iids_fit d = list_all (\<lambda>(k, r). in_int64 (gitlab_issue_iid r)) (links d)"

text \<open>
  Two rows of \<^verbatim>\<open>jira_gitlab_links\<close> name the same target issue: the issue iid is the
  same, and so is the project id when the first row carries the configured project.
\<close>

definition same_target :: "environ \<Rightarrow> link_row \<Rightarrow> link_row \<Rightarrow> bool" where
  "same_target cfg r r' \<longleftrightarrow>
     gitlab_issue_iid r' = gitlab_issue_iid r
     \<and> (gitlab_project_id r = GITLAB_PROJECT_ID cfg \<longrightarrow> gitlab_project_id r' = gitlab_project_id r)"

text \<open>
  The string values.
\<close>

fun is_str :: "json \<Rightarrow> bool" where
  "is_str (JStr s) = True"
| "is_str _ = False"

section \<open>Worked examples\<close>

text \<open>
  A runtime for the worked examples. Their payloads hold strings where the relay formats a
  value and integers where it converts one, so neither builtin decides an example.
\<close>

definition example_builtins :: builtins where
  "example_builtins = \<lparr> py_str = (\<lambda>v. ''?''), py_int_str = (\<lambda>s. None) \<rparr>"

text \<open>
  An environment with a target project, one allowed assignee and her target user id; the
  same environment with a shared secret.
\<close>

definition example_environ :: environ where
  "example_environ = default_environ \<lparr>
     env_GITLAB_BASE_URL := ''https://gitlab.example/'',
     env_GITLAB_PROJECT_ID := ''42'',
     env_GITLAB_TOKEN := ''secret-token'',
     env_ALLOWED_ASSIGNEES := ''alice'',
     env_JIRA_TO_GITLAB_USER_ID := JObj [(''alice'', JInt 11)] \<rparr>"

definition secured_environ :: environ where
  "secured_environ = example_environ \<lparr> env_JIRA_SHARED_SECRET := ''s3cret'' \<rparr>"

text \<open>
  Payloads as the source system sends them: one issue \<^verbatim>\<open>PROJ-1\<close>, with a given assignee,
  status name and \<^verbatim>\<open>updated\<close> stamp; a payload whose label list holds a number; and the
  request that carries a payload without any token.
\<close>

definition example_payload :: "json \<Rightarrow> string \<Rightarrow> string \<Rightarrow> json" where
  "example_payload assignee_obj st upd =
     JObj [(''webhookEvent'', JStr ''jira:issue_updated''),
           (''issue'', JObj [(''key'', JStr ''PROJ-1''),
              (''fields'', JObj [(''summary'', JStr ''Fix it''),
                 (''description'', JStr ''Broken''),
                 (''status'', JObj [(''name'', JStr st)]),
                 (''assignee'', assignee_obj),
                 (''labels'', JList [JStr ''bug'']),
                 (''updated'', JStr upd)])])]"

definition alice :: json where
  "alice = JObj [(''name'', JStr ''alice'')]"

definition bob :: json where
  "bob = JObj [(''name'', JStr ''bob'')]"

definition mixed_labels_payload :: json where
  "mixed_labels_payload =
     JObj [(''issue'', JObj [(''key'', JStr ''PROJ-1''),
              (''fields'', JObj [(''labels'', JList [JInt 1, JStr ''bug''])])])]"

definition example_request :: "json \<Rightarrow> request" where
  "example_request p = \<lparr> x_sync_token = None, query_token = None, body = Some p \<rparr>"

text \<open>
  Four deliveries: the issue assigned to an allowed user, to another user, to nobody, and
  the issue in a status outside the done set.
\<close>

definition request_alice :: request where
  "request_alice = example_request (example_payload alice ''Done'' ''2024-01-01'')"

definition request_bob :: request where
  "request_bob = example_request (example_payload bob ''Done'' ''2024-01-01'')"

definition request_unassigned :: request where
  "request_unassigned = example_request (example_payload JNull ''Done'' ''2024-01-02'')"

definition request_in_progress :: request where
  "request_in_progress = example_request (example_payload alice ''In Progress'' ''2024-01-03'')"

text \<open>
  The surroundings of a delivery: the answer of the target system and the two clock
  readings. The target system answers a creation with the new issue, an update with
  success, or fails; or it creates the issue and answers without its iid.
\<close>

definition example_world :: "reply \<Rightarrow> world" where
  "example_world r = \<lparr> gitlab_reply = r, now_link = ''t1'', now_processed = ''t2'' \<rparr>"

definition world_created :: world where
  "world_created = example_world (Reply 201 (Some (JObj [(''iid'', JInt 7)])))"

definition world_ok :: world where
  "world_ok = example_world (Reply 200 None)"

definition world_failed :: world where
  "world_failed = example_world (Reply 500 None)"


text \<open>
  The empty store, and a store in which \<^verbatim>\<open>PROJ-1\<close> is linked to issue 7 of project 42.
\<close>

definition empty_db :: db where
  "empty_db = \<lparr> links = [], processed = [] \<rparr>"

definition linked_db :: db where
  "linked_db = \<lparr> links = [(''PROJ-1'', \<lparr> gitlab_project_id = ''42'', gitlab_issue_iid = 7,
                     last_synced_at = ''t0'', sync_state = ''in-scope'' \<rparr>)],
                 processed = [] \<rparr>"

section \<open>Basic facts\<close>

lemma ebind_Inl [simp]: "ebind (Inl e) f = Inl e"
  by (simp add: ebind_def)

lemma ebind_Inr [simp]: "ebind (Inr x) f = f x"
  by (simp add: ebind_def)

lemma ebind_eq_Inr: "ebind m f = Inr y \<longleftrightarrow> (\<exists>x. m = Inr x \<and> f x = Inr y)"
  by (cases m) auto

subsection \<open>Stripping\<close>

lemma dropWhile_self_prefix:
  "dropWhile P (xs @ ys) = xs @ ys \<Longrightarrow> dropWhile P xs = xs"
  using dropWhile_eq_self_iff[of P "xs @ ys"] dropWhile_eq_self_iff[of P xs]
  by (cases xs) auto

lemma py_strip_idem: "py_strip (py_strip s) = py_strip s"
proof -
  define t where "t = dropWhile py_isspace s"
  define u where "u = dropWhile py_isspace (rev t)"
  have "takeWhile py_isspace (rev t) @ u = rev t"
    by (simp add: u_def)
  then have "t = rev u @ rev (takeWhile py_isspace (rev t))"
    by (metis rev_append rev_rev_ident)
  moreover have "dropWhile py_isspace t = t"
    by (simp add: t_def)
  ultimately have "dropWhile py_isspace (rev u) = rev u"
    by (metis dropWhile_self_prefix)
  moreover have "dropWhile py_isspace u = u"
    by (simp add: u_def)
  ultimately show ?thesis
    by (simp add: py_strip_def t_def[symmetric] u_def[symmetric])
qed

lemma py_strip_fixed_ends:
  assumes "py_strip p = p" "p \<noteq> []"
  shows "\<not> py_isspace (hd p) \<and> \<not> py_isspace (last p)"
proof -
  have len: "length (dropWhile py_isspace xs) \<le> length xs" for xs
    by (simp add: length_dropWhile_le)
  have "length p = length (dropWhile py_isspace (rev (dropWhile py_isspace p)))"
    using assms(1) by (metis length_rev py_strip_def)
  then have a: "length (dropWhile py_isspace p) = length p"
    using len[of p] len[of "rev (dropWhile py_isspace p)"] by simp
  have b: "dropWhile py_isspace p = p"
    using a by (metis takeWhile_dropWhile_id append_eq_conv_conj length_0_conv length_append
        add_cancel_left_left append_self_conv2)
  then have c: "dropWhile py_isspace (rev p) = rev p"
    using assms(1) by (simp add: py_strip_def) (metis rev_rev_ident)
  from b assms(2) have "\<not> py_isspace (hd p)"
    by (metis hd_dropWhile)
  moreover from c assms(2) have "\<not> py_isspace (last p)"
    by (metis hd_dropWhile hd_rev rev_is_Nil_conv)
  ultimately show ?thesis by simp
qed

lemma py_strip_keeps_prefix:
  assumes "py_strip p = p" "p \<noteq> []"
  shows "prefix p (py_strip (p @ x))"
proof -
  from py_strip_fixed_ends[OF assms] have h: "\<not> py_isspace (hd p)" and l: "\<not> py_isspace (last p)"
    by simp_all
  have 1: "dropWhile py_isspace (p @ x) = p @ x"
    using h assms(2) by (cases p) auto
  have 2: "\<exists>ys. dropWhile py_isspace (rev x @ rev p) = ys @ rev p"
  proof (cases "\<forall>c\<in>set (rev x). py_isspace c")
    case True
    then have "dropWhile py_isspace (rev x @ rev p) = dropWhile py_isspace (rev p)"
      by (intro dropWhile_append2) auto
    also have "\<dots> = rev p"
      using l assms(2) by (cases "rev p") (auto simp: last_rev hd_rev[symmetric])
    finally show ?thesis by simp
  next
    case False
    then obtain c where "c \<in> set (rev x)" "\<not> py_isspace c" by blast
    then have "dropWhile py_isspace (rev x @ rev p) = dropWhile py_isspace (rev x) @ rev p"
      by (simp add: dropWhile_append1)
    then show ?thesis by blast
  qed
  then obtain ys where "dropWhile py_isspace (rev x @ rev p) = ys @ rev p" by blast
  then have "py_strip (p @ x) = p @ rev ys"
    by (simp add: py_strip_def 1)
  then show ?thesis by simp
qed

subsection \<open>The loops of label composition\<close>

lemma uniq_append: "uniq S (xs @ ys) = uniq S xs @ uniq (S \<union> set xs) ys"
  by (induction xs arbitrary: S) (auto simp: insert_absorb)

lemma uniq_snoc: "uniq S (xs @ [a]) = uniq S xs @ (if a \<in> S \<or> a \<in> set xs then [] else [a])"
  by (induction xs arbitrary: S) auto

lemma uniq_set: "set (uniq S xs) = set xs - S"
  by (induction xs arbitrary: S) auto

lemma uniq_distinct: "distinct (uniq S xs)"
  by (induction xs arbitrary: S) (auto simp: uniq_set)

lemma uniq_first_occurrence: "uniq {} xs = rev (remdups (rev xs))"
  by (induction xs rule: rev_induct) (auto simp: uniq_snoc)

lemma uniq_id: "distinct xs \<Longrightarrow> set xs \<inter> S = {} \<Longrightarrow> uniq S xs = xs"
  by (induction xs arbitrary: S) auto

lemma stripped_labels_fixed: "l \<in> set (stripped_labels ls) \<Longrightarrow> py_strip l = l \<and> l \<noteq> []"
  by (induction ls rule: stripped_labels.induct) (auto simp: py_strip_idem split: if_splits)

lemma stripped_labels_append:
  "stripped_labels (xs @ ys) = stripped_labels xs @ stripped_labels ys"
  by (induction xs rule: stripped_labels.induct) auto

lemma stripped_labels_id:
  "(\<And>l. l \<in> set xs \<Longrightarrow> py_strip l = l \<and> l \<noteq> []) \<Longrightarrow> stripped_labels (map JStr xs) = xs"
  by (induction xs) auto

lemma kept_labels_append:
  "kept_labels cfg (xs @ ys) = kept_labels cfg xs @ kept_labels cfg ys"
  by (simp add: kept_labels_def stripped_labels_append)

lemma labels_merge_shape:
  assumes io: "LABEL_IN_SCOPE cfg \<noteq> LABEL_OUT_OF_SCOPE cfg"
    and ni: "\<not> prefix (LABEL_PREFIX_STATUS cfg) (LABEL_IN_SCOPE cfg)"
    and no: "\<not> prefix (LABEL_PREFIX_STATUS cfg) (LABEL_OUT_OF_SCOPE cfg)"
  shows "labels_merge cfg py ls st sc =
           uniq {} (kept_labels cfg ls)
           @ [status_label cfg py st, if sc then LABEL_IN_SCOPE cfg else LABEL_OUT_OF_SCOPE cfg]"
proof -
  let ?P = "LABEL_PREFIX_STATUS cfg"
  let ?sl = "status_label cfg py st"
  let ?scl = "if sc then LABEL_IN_SCOPE cfg else LABEL_OUT_OF_SCOPE cfg"
  have psl: "prefix ?P ?sl"
    by (simp add: status_label_def)
  then have sl_ns: "?sl \<noteq> LABEL_OUT_OF_SCOPE cfg" "?sl \<noteq> LABEL_IN_SCOPE cfg"
    using ni no by auto
  have out3: "labels_merge cfg py ls st sc = uniq {} ((kept_labels cfg ls @ [?sl]) @ [?scl])"
    using sl_ns by (simp add: labels_merge_def kept_labels_def Let_def)
  have a: "?sl \<notin> set (kept_labels cfg ls)"
    using psl by (auto simp: kept_labels_def)
  have b: "?scl \<notin> set (kept_labels cfg ls)" "?scl \<noteq> ?sl"
    using sl_ns by (auto simp: kept_labels_def)
  show ?thesis
    unfolding out3 using a b by (auto simp: uniq_append)
qed

section \<open>Description composition\<close>

text \<open>
  C6. For every source key \<open>k\<close> and source description \<open>d\<close> (both strings), description
  composition returns a string \<open>r\<close>. When \<open>d\<close> already contains the marker line
  \<^verbatim>\<open>"<prefix> <sourceKey>"\<close>, \<open>r\<close> is \<open>d\<close> itself; only otherwise is the marker appended
  (after a separator when \<open>d\<close> has something other than whitespace, alone when it has not).
  Composition is idempotent: applied to its own result it returns that result.
\<close>

theorem build_description_idempotent:
  "\<exists>r. build_description cfg py (JStr k) (JStr d) = Inr (JStr r)
     \<and> (sublist (SYNC_MARKER_PREFIX cfg @ '' '' @ k) d \<longrightarrow> r = d)
     \<and> (\<not> sublist (SYNC_MARKER_PREFIX cfg @ '' '' @ k) d \<longrightarrow>
          r = (if py_strip d \<noteq> [] then d @ [CHR 10, CHR 10] @ ''---'' @ [CHR 10] else [])
              @ SYNC_MARKER_PREFIX cfg @ '' '' @ k)
     \<and> build_description cfg py (JStr k) (JStr r) = Inr (JStr r)"
proof (cases "sublist (SYNC_MARKER_PREFIX cfg @ '' '' @ k) d")
  case True
  then show ?thesis
    by (simp add: build_description_def sync_marker_def)
next
  case False
  let ?m = "SYNC_MARKER_PREFIX cfg @ '' '' @ k"
  let ?r = "(if py_strip d \<noteq> [] then d @ [CHR 10, CHR 10] @ ''---'' @ [CHR 10] else []) @ ?m"
  have "sublist ?m ?r"
    by (rule suffix_imp_sublist) (simp add: suffix_def)
  then have "build_description cfg py (JStr k) (JStr ?r) = Inr (JStr ?r)"
    by (simp add: build_description_def sync_marker_def)
  moreover have "build_description cfg py (JStr k) (JStr d) = Inr (JStr ?r)"
    using False by (simp add: build_description_def sync_marker_def)
  ultimately show ?thesis using False by simp
qed

theorem build_description_idempotent_example:
  "build_description default_environ example_builtins (JStr ''PROJ-1'') (JStr ''Fix it'')
     = Inr (JStr (''Fix it'' @ [CHR 10, CHR 10] @ ''---'' @ [CHR 10] @ ''JIRA_KEY: PROJ-1''))
   \<and> build_description default_environ example_builtins (JStr ''PROJ-1'')
       (JStr (''Fix it'' @ [CHR 10, CHR 10] @ ''---'' @ [CHR 10] @ ''JIRA_KEY: PROJ-1''))
     = Inr (JStr (''Fix it'' @ [CHR 10, CHR 10] @ ''---'' @ [CHR 10] @ ''JIRA_KEY: PROJ-1''))
   \<and> build_description default_environ example_builtins (JStr ''PROJ-1'') (JStr [CHR 0xA0])
     = Inr (JStr ''JIRA_KEY: PROJ-1'')"
proof -
  have m: "SYNC_MARKER_PREFIX default_environ = ''JIRA_KEY:''"
    by (simp add: SYNC_MARKER_PREFIX_def default_environ_def)
  have n: "\<not> sublist (''JIRA_KEY:'' @ '' '' @ ''PROJ-1'') ''Fix it''"
    by (simp add: sublist_Cons_right)
  have s: "py_strip ''Fix it'' \<noteq> []"
    by (simp add: py_strip_def py_isspace_def)
  have n': "\<not> sublist (''JIRA_KEY:'' @ '' '' @ ''PROJ-1'') [CHR 0xA0]"
    by (simp add: sublist_Cons_right)
  have s': "py_strip [CHR 0xA0] = []"
    by (simp add: py_strip_def py_isspace_def)
  from build_description_idempotent[of default_environ example_builtins "''PROJ-1''" "''Fix it''"]
  have a: "build_description default_environ example_builtins (JStr ''PROJ-1'') (JStr ''Fix it'')
     = Inr (JStr (''Fix it'' @ [CHR 10, CHR 10] @ ''---'' @ [CHR 10] @ ''JIRA_KEY: PROJ-1''))
   \<and> build_description default_environ example_builtins (JStr ''PROJ-1'')
       (JStr (''Fix it'' @ [CHR 10, CHR 10] @ ''---'' @ [CHR 10] @ ''JIRA_KEY: PROJ-1''))
     = Inr (JStr (''Fix it'' @ [CHR 10, CHR 10] @ ''---'' @ [CHR 10] @ ''JIRA_KEY: PROJ-1''))"
    unfolding m using n s by auto
  from build_description_idempotent[of default_environ example_builtins "''PROJ-1''" "[CHR 0xA0]"]
  have b: "build_description default_environ example_builtins (JStr ''PROJ-1'') (JStr [CHR 0xA0])
     = Inr (JStr ''JIRA_KEY: PROJ-1'')"
    unfolding m using n' s' by auto
  from a b show ?thesis by blast
qed

section \<open>Label composition\<close>

text \<open>
  C5. The configured markers are taken as the defaults have them: the two scope markers
  differ, neither starts with the status prefix, and none of the three carries leading or
  trailing whitespace. Then, for every source label list, status string and scope flag,
  label composition returns a duplicate-free list: the surviving source labels, each at its
  first occurrence and in that order, followed by the status label and the scope label. It
  holds exactly one status-prefixed label (\<^verbatim>\<open>unknown\<close> for the empty status) and exactly
  one scope marker, the in-scope one or the out-of-scope one according to the flag.
  Composing again from that result, with the same status and flag, returns it unchanged.
\<close>

theorem labels_merge_fixed_point:
  assumes io: "LABEL_IN_SCOPE cfg \<noteq> LABEL_OUT_OF_SCOPE cfg"
    and ni: "\<not> prefix (LABEL_PREFIX_STATUS cfg) (LABEL_IN_SCOPE cfg)"
    and no: "\<not> prefix (LABEL_PREFIX_STATUS cfg) (LABEL_OUT_OF_SCOPE cfg)"
    and sp: "py_strip (LABEL_PREFIX_STATUS cfg) = LABEL_PREFIX_STATUS cfg"
    and si: "py_strip (LABEL_IN_SCOPE cfg) = LABEL_IN_SCOPE cfg"
    and so: "py_strip (LABEL_OUT_OF_SCOPE cfg) = LABEL_OUT_OF_SCOPE cfg"
  shows "distinct (labels_merge cfg py ls (JStr st) sc)
    \<and> labels_merge cfg py ls (JStr st) sc =
        rev (remdups (rev (filter (\<lambda>l. \<not> prefix (LABEL_PREFIX_STATUS cfg) l
                 \<and> l \<noteq> LABEL_OUT_OF_SCOPE cfg \<and> l \<noteq> LABEL_IN_SCOPE cfg) (stripped_labels ls))))
        @ [LABEL_PREFIX_STATUS cfg @ (if st = [] then ''unknown'' else st),
           if sc then LABEL_IN_SCOPE cfg else LABEL_OUT_OF_SCOPE cfg]
    \<and> filter (prefix (LABEL_PREFIX_STATUS cfg)) (labels_merge cfg py ls (JStr st) sc) =
        [LABEL_PREFIX_STATUS cfg @ (if st = [] then ''unknown'' else st)]
    \<and> filter (\<lambda>l. l = LABEL_IN_SCOPE cfg \<or> l = LABEL_OUT_OF_SCOPE cfg)
         (labels_merge cfg py ls (JStr st) sc) =
        [if sc then LABEL_IN_SCOPE cfg else LABEL_OUT_OF_SCOPE cfg]
    \<and> labels_merge cfg py (map JStr (labels_merge cfg py ls (JStr st) sc)) (JStr st) sc =
        labels_merge cfg py ls (JStr st) sc"
proof -
  let ?P = "LABEL_PREFIX_STATUS cfg"
  let ?I = "LABEL_IN_SCOPE cfg"
  let ?O = "LABEL_OUT_OF_SCOPE cfg"
  let ?sl = "status_label cfg py (JStr st)"
  let ?scl = "if sc then ?I else ?O"
  let ?K = "uniq {} (kept_labels cfg ls)"
  let ?res = "labels_merge cfg py ls (JStr st) sc"
  have shape: "?res = ?K @ [?sl, ?scl]"
    by (rule labels_merge_shape[OF io ni no])
  have sl: "?sl = ?P @ (if st = [] then ''unknown'' else st)"
    by (simp add: status_label_def)
  have psl: "prefix ?P ?sl"
    by (simp add: status_label_def)
  have sl_ns: "?sl \<noteq> ?O" "?sl \<noteq> ?I"
    using psl ni no by auto
  have Kset: "set ?K = set (kept_labels cfg ls)"
    by (simp add: uniq_set)
  have Knp: "\<not> prefix ?P l \<and> l \<noteq> ?O \<and> l \<noteq> ?I \<and> py_strip l = l \<and> l \<noteq> []"
    if "l \<in> set ?K" for l
    using that stripped_labels_fixed[of l ls] unfolding Kset by (auto simp: kept_labels_def)
  have scl_np: "\<not> prefix ?P ?scl"
    using ni no by simp
  have sl_nK: "?sl \<notin> set ?K"
    using Knp psl by blast
  have scl_nK: "?scl \<notin> set ?K"
    using Knp[of ?scl] by (cases sc) auto
  have sl_scl: "?sl \<noteq> ?scl"
    using sl_ns by simp
  have d: "distinct ?res"
    unfolding shape using sl_nK scl_nK sl_scl by (simp add: uniq_distinct)
  have fo: "?K = rev (remdups (rev (filter (\<lambda>l. \<not> prefix ?P l \<and> l \<noteq> ?O \<and> l \<noteq> ?I)
                  (stripped_labels ls))))"
    by (simp add: uniq_first_occurrence kept_labels_def)
  have fK1: "filter (prefix ?P) ?K = []"
    using Knp by (auto simp: filter_empty_conv)
  have one_status: "filter (prefix ?P) ?res = [?sl]"
    unfolding shape using fK1 psl scl_np by simp
  have fK2: "filter (\<lambda>l. l = ?I \<or> l = ?O) ?K = []"
    using Knp by (auto simp: filter_empty_conv)
  have one_scope: "filter (\<lambda>l. l = ?I \<or> l = ?O) ?res = [?scl]"
    unfolding shape using fK2 sl_ns by auto
  \<comment> \<open>second application\<close>
  have Pne: "?P \<noteq> []"
    using ni by auto
  have sK: "stripped_labels (map JStr ?K) = ?K"
    by (rule stripped_labels_id) (use Knp in blast)
  have psl': "prefix ?P (py_strip ?sl)"
    unfolding sl by (rule py_strip_keeps_prefix[OF sp Pne])
  have scl_strip: "py_strip ?scl = ?scl"
    using si so by simp
  have kept2: "kept_labels cfg (map JStr ?res) = ?K"
  proof -
    let ?Q = "\<lambda>l. \<not> prefix ?P l \<and> l \<noteq> ?O \<and> l \<noteq> ?I"
    have "kept_labels cfg (map JStr ?res) =
            kept_labels cfg (map JStr ?K) @ kept_labels cfg [JStr ?sl, JStr ?scl]"
      unfolding shape by (simp add: kept_labels_append)
    moreover have "kept_labels cfg (map JStr ?K) = filter ?Q ?K"
      by (simp only: kept_labels_def[of cfg "map JStr ?K"] sK)
    moreover have "kept_labels cfg [JStr ?sl, JStr ?scl] =
            filter ?Q (stripped_labels [JStr ?sl, JStr ?scl])"
      by (simp only: kept_labels_def)
    moreover have "filter ?Q ?K = ?K"
      using Knp by (auto simp: filter_id_conv)
    moreover have "filter ?Q (stripped_labels [JStr ?sl, JStr ?scl]) = []"
      using psl' scl_strip by (cases sc) auto
    ultimately show ?thesis
      by simp
  qed
  have "labels_merge cfg py (map JStr ?res) (JStr st) sc = uniq {} ?K @ [?sl, ?scl]"
    using labels_merge_shape[OF io ni no, of py "map JStr ?res" "JStr st" sc] kept2 by simp
  also have "uniq {} ?K = ?K"
    by (rule uniq_id) (simp_all add: uniq_distinct)
  finally have fp: "labels_merge cfg py (map JStr ?res) (JStr st) sc = ?res"
    using shape by simp
  have c2: "?res = rev (remdups (rev (filter (\<lambda>l. \<not> prefix ?P l \<and> l \<noteq> ?O \<and> l \<noteq> ?I)
                  (stripped_labels ls)))) @ [?P @ (if st = [] then ''unknown'' else st), ?scl]"
    using shape fo sl by metis
  show ?thesis
    using d c2 one_status[unfolded sl] one_scope fp by blast
qed


lemma default_markers:
  "LABEL_PREFIX_STATUS default_environ = ''jira:status:''"
  "LABEL_IN_SCOPE default_environ = ''sync:in-scope''"
  "LABEL_OUT_OF_SCOPE default_environ = ''sync:out-of-scope''"
  by (simp_all add: LABEL_PREFIX_STATUS_def LABEL_IN_SCOPE_def LABEL_OUT_OF_SCOPE_def
      default_environ_def)

theorem labels_merge_fixed_point_example:
  "LABEL_IN_SCOPE default_environ \<noteq> LABEL_OUT_OF_SCOPE default_environ
   \<and> \<not> prefix (LABEL_PREFIX_STATUS default_environ) (LABEL_IN_SCOPE default_environ)
   \<and> \<not> prefix (LABEL_PREFIX_STATUS default_environ) (LABEL_OUT_OF_SCOPE default_environ)
   \<and> py_strip (LABEL_PREFIX_STATUS default_environ) = LABEL_PREFIX_STATUS default_environ
   \<and> py_strip (LABEL_IN_SCOPE default_environ) = LABEL_IN_SCOPE default_environ
   \<and> py_strip (LABEL_OUT_OF_SCOPE default_environ) = LABEL_OUT_OF_SCOPE default_environ
   \<and> labels_merge default_environ example_builtins
        [JStr (CHR 0xA0 # ''bug ''), JInt 3, JStr ''bug'', JStr ''jira:status:Old'', JStr ''sync:out-of-scope'']
        (JStr ''Done'') True
       = [''bug'', ''jira:status:Done'', ''sync:in-scope'']
   \<and> labels_merge default_environ example_builtins
        (map JStr [''bug'', ''jira:status:Done'', ''sync:in-scope'']) (JStr ''Done'') True
       = [''bug'', ''jira:status:Done'', ''sync:in-scope'']"
proof -
  have io: "LABEL_IN_SCOPE default_environ \<noteq> LABEL_OUT_OF_SCOPE default_environ"
    by (simp add: default_markers)
  have ni: "\<not> prefix (LABEL_PREFIX_STATUS default_environ) (LABEL_IN_SCOPE default_environ)"
    by (simp add: default_markers)
  have no: "\<not> prefix (LABEL_PREFIX_STATUS default_environ) (LABEL_OUT_OF_SCOPE default_environ)"
    by (simp add: default_markers)
  have sp: "py_strip (LABEL_PREFIX_STATUS default_environ) = LABEL_PREFIX_STATUS default_environ"
    by (simp add: default_markers py_strip_def py_isspace_def)
  have si: "py_strip (LABEL_IN_SCOPE default_environ) = LABEL_IN_SCOPE default_environ"
    by (simp add: default_markers py_strip_def py_isspace_def)
  have so: "py_strip (LABEL_OUT_OF_SCOPE default_environ) = LABEL_OUT_OF_SCOPE default_environ"
    by (simp add: default_markers py_strip_def py_isspace_def)
  have b1: "py_strip (CHR 0xA0 # ''bug '') = ''bug''" and b2: "py_strip ''bug'' = ''bug''"
    and b3: "py_strip ''jira:status:Old'' = ''jira:status:Old''"
    by (simp_all add: py_strip_def py_isspace_def)
  have sl: "stripped_labels
        [JStr (CHR 0xA0 # ''bug ''), JInt 3, JStr ''bug'', JStr ''jira:status:Old'', JStr ''sync:out-of-scope'']
      = [''bug'', ''bug'', ''jira:status:Old'', ''sync:out-of-scope'']"
    using b1 b2 b3 so by (simp add: default_markers)
  have v: "labels_merge default_environ example_builtins
        [JStr (CHR 0xA0 # ''bug ''), JInt 3, JStr ''bug'', JStr ''jira:status:Old'', JStr ''sync:out-of-scope'']
        (JStr ''Done'') True
       = [''bug'', ''jira:status:Done'', ''sync:in-scope'']"
    unfolding labels_merge_def sl by (simp add: default_markers status_label_def)
  from labels_merge_fixed_point[OF io ni no sp si so, of example_builtins
      "[JStr (CHR 0xA0 # ''bug ''), JInt 3, JStr ''bug'', JStr ''jira:status:Old'', JStr ''sync:out-of-scope'']"
      "''Done''" True]
  have "labels_merge default_environ example_builtins
        (map JStr (labels_merge default_environ example_builtins
        [JStr (CHR 0xA0 # ''bug ''), JInt 3, JStr ''bug'', JStr ''jira:status:Old'', JStr ''sync:out-of-scope'']
        (JStr ''Done'') True)) (JStr ''Done'') True
       = labels_merge default_environ example_builtins
        [JStr (CHR 0xA0 # ''bug ''), JInt 3, JStr ''bug'', JStr ''jira:status:Old'', JStr ''sync:out-of-scope'']
        (JStr ''Done'') True"
    by blast
  then have f: "labels_merge default_environ example_builtins
        (map JStr [''bug'', ''jira:status:Done'', ''sync:in-scope'']) (JStr ''Done'') True
       = [''bug'', ''jira:status:Done'', ''sync:in-scope'']"
    unfolding v .
  show ?thesis
    using io ni no sp si so v f by blast
qed

section \<open>The paths of the handler\<close>

text \<open>
  Every run of the handler follows one of a few paths. The rules below name them, so that
  a property of the handler is proved path by path.
\<close>

lemma sync_issue_cases [consumes 1, case_names skip_scope create_failed created update_failed updated
    create_unstored update_unstored]:
  assumes "sync_issue cfg py d w fp data l = out"
  obtains
    (skip_scope) "l_link l = None" "\<not> l_in_scope l"
      "out = (mark_processed d fp (now_processed w), [],
              Inr \<lparr> ok = True, action = ''skip_create_out_of_scope'',
                    jira_key = Some (key data), gitlab_iid = None \<rparr>)"
  | (create_failed) e where "l_link l = None" "l_in_scope l"
      "create_result py (gitlab_reply w) = Inl e"
      "out = (d, [POST_issues (create_data (l_title l) (l_description l) (l_labels l)
                    (l_assignee_ids l)
                    (if l_state_event l = Some ''close'' then Some ''close'' else None))], Inl e)"
  | (created) iid where "l_link l = None" "l_in_scope l"
      "create_result py (gitlab_reply w) = Inr iid"
      "out = (mark_processed (upsert_row cfg d (l_key_text l) iid ''in-scope'' (now_link w))
                fp (now_processed w),
              [POST_issues (create_data (l_title l) (l_description l) (l_labels l)
                    (l_assignee_ids l)
                    (if l_state_event l = Some ''close'' then Some ''close'' else None))],
              Inr \<lparr> ok = True, action = ''created'',
                    jira_key = Some (key data), gitlab_iid = Some iid \<rparr>)"
      "in_int64 iid"
  | (update_failed) pr iid st e where "l_link l = Some (pr, iid, st)"
      "update_result (gitlab_reply w) = Inl e"
      "out = (d, [PUT_issue iid (update_data (l_title l) (l_description l) (l_labels l)
                    (l_assignee_ids l) (l_state_event l))], Inl e)"
  | (updated) pr iid st where "l_link l = Some (pr, iid, st)"
      "update_result (gitlab_reply w) = Inr ()"
      "out = (mark_processed
                (upsert_row cfg d (l_key_text l) iid
                   (if l_in_scope l then ''in-scope'' else ''out-of-scope'') (now_link w))
                fp (now_processed w),
              [PUT_issue iid (update_data (l_title l) (l_description l) (l_labels l)
                    (l_assignee_ids l) (l_state_event l))],
              Inr \<lparr> ok = True, action = ''updated'',
                    jira_key = Some (key data), gitlab_iid = Some iid \<rparr>)"
      "in_int64 iid"
  | (create_unstored) iid where "l_link l = None" "l_in_scope l"
      "create_result py (gitlab_reply w) = Inr iid" "\<not> in_int64 iid"
      "out = (d, [POST_issues (create_data (l_title l) (l_description l) (l_labels l)
                    (l_assignee_ids l)
                    (if l_state_event l = Some ''close'' then Some ''close'' else None))], Inl OverflowError)"
  | (update_unstored) pr iid st where "l_link l = Some (pr, iid, st)"
      "update_result (gitlab_reply w) = Inr ()" "\<not> in_int64 iid"
      "out = (d, [PUT_issue iid (update_data (l_title l) (l_description l) (l_labels l)
                    (l_assignee_ids l) (l_state_event l))], Inl OverflowError)"
proof (cases "l_link l")
  case None
  show ?thesis
  proof (cases "l_in_scope l")
    case False
    with None assms show ?thesis
      by (intro skip_scope) (simp_all add: sync_issue_def)
  next
    case True
    show ?thesis
    proof (cases "create_result py (gitlab_reply w)")
      case (Inl e)
      with None True assms show ?thesis
        by (intro create_failed[of e]) (simp_all add: sync_issue_def gitlab_create_issue_def)
    next
      case (Inr iid)
      show ?thesis
      proof (cases "in_int64 iid")
        case True
        with Inr None \<open>l_in_scope l\<close> assms show ?thesis
          by (intro created[of iid])
            (simp_all add: sync_issue_def gitlab_create_issue_def upsert_link_def)
      next
        case False
        with Inr None \<open>l_in_scope l\<close> assms show ?thesis
          by (intro create_unstored[of iid])
            (simp_all add: sync_issue_def gitlab_create_issue_def upsert_link_def)
      qed
    qed
  qed
next
  case (Some t)
  obtain pr iid st where t: "t = (pr, iid, st)"
    by (cases t) auto
  show ?thesis
  proof (cases "update_result (gitlab_reply w)")
    case (Inl e)
    with Some t assms show ?thesis
      by (intro update_failed[of pr iid st e]) (simp_all add: sync_issue_def gitlab_update_issue_def)
  next
    case (Inr u)
    show ?thesis
    proof (cases "in_int64 iid")
      case True
      with Inr Some t assms show ?thesis
        by (intro updated[of pr iid st])
          (simp_all add: sync_issue_def gitlab_update_issue_def upsert_link_def)
    next
      case False
      with Inr Some t assms show ?thesis
        by (intro update_unstored[of pr iid st])
          (simp_all add: sync_issue_def gitlab_update_issue_def upsert_link_def)
    qed
  qed
qed

lemma process_payload_cases [consumes 1, case_names fingerprint_error dedup extract_error
    skip_no_key locals_error skip_scope create_failed created update_failed updated
    create_unstored update_unstored]:
  assumes "process_payload cfg py d w p = out"
  obtains
    (fingerprint_error) e where "fingerprint py p = Inl e" "out = (d, [], Inl e)"
  | (dedup) fp where "fingerprint py p = Inr fp" "is_processed d fp"
      "out = (d, [], Inr \<lparr> ok = True, action = ''dedup'', jira_key = None, gitlab_iid = None \<rparr>)"
  | (extract_error) fp e where "fingerprint py p = Inr fp" "\<not> is_processed d fp"
      "jira_extract p = Inl e" "out = (d, [], Inl e)"
  | (skip_no_key) fp data where "fingerprint py p = Inr fp" "\<not> is_processed d fp"
      "jira_extract p = Inr data" "\<not> truthy (key data)"
      "out = (mark_processed d fp (now_processed w), [],
              Inr \<lparr> ok = True, action = ''skip_no_key'', jira_key = None, gitlab_iid = None \<rparr>)"
  | (locals_error) fp data e where "fingerprint py p = Inr fp" "\<not> is_processed d fp"
      "jira_extract p = Inr data" "truthy (key data)"
      "compute_locals cfg py d data = Inl e" "out = (d, [], Inl e)"
  | (skip_scope) fp data l where "fingerprint py p = Inr fp" "\<not> is_processed d fp"
      "jira_extract p = Inr data" "truthy (key data)"
      "compute_locals cfg py d data = Inr l" "l_link l = None" "\<not> l_in_scope l"
      "out = (mark_processed d fp (now_processed w), [],
              Inr \<lparr> ok = True, action = ''skip_create_out_of_scope'',
                    jira_key = Some (key data), gitlab_iid = None \<rparr>)"
  | (create_failed) fp data l e where "fingerprint py p = Inr fp" "\<not> is_processed d fp"
      "jira_extract p = Inr data" "truthy (key data)"
      "compute_locals cfg py d data = Inr l" "l_link l = None" "l_in_scope l"
      "create_result py (gitlab_reply w) = Inl e"
      "out = (d, [POST_issues (create_data (l_title l) (l_description l) (l_labels l)
                    (l_assignee_ids l)
                    (if l_state_event l = Some ''close'' then Some ''close'' else None))], Inl e)"
  | (created) fp data l iid where "fingerprint py p = Inr fp" "\<not> is_processed d fp"
      "jira_extract p = Inr data" "truthy (key data)"
      "compute_locals cfg py d data = Inr l" "l_link l = None" "l_in_scope l"
      "create_result py (gitlab_reply w) = Inr iid"
      "out = (mark_processed (upsert_row cfg d (l_key_text l) iid ''in-scope'' (now_link w))
                fp (now_processed w),
              [POST_issues (create_data (l_title l) (l_description l) (l_labels l)
                    (l_assignee_ids l)
                    (if l_state_event l = Some ''close'' then Some ''close'' else None))],
              Inr \<lparr> ok = True, action = ''created'',
                    jira_key = Some (key data), gitlab_iid = Some iid \<rparr>)"
      "in_int64 iid"
  | (update_failed) fp data l pr iid st e where "fingerprint py p = Inr fp" "\<not> is_processed d fp"
      "jira_extract p = Inr data" "truthy (key data)"
      "compute_locals cfg py d data = Inr l" "l_link l = Some (pr, iid, st)"
      "update_result (gitlab_reply w) = Inl e"
      "out = (d, [PUT_issue iid (update_data (l_title l) (l_description l) (l_labels l)
                    (l_assignee_ids l) (l_state_event l))], Inl e)"
  | (updated) fp data l pr iid st where "fingerprint py p = Inr fp" "\<not> is_processed d fp"
      "jira_extract p = Inr data" "truthy (key data)"
      "compute_locals cfg py d data = Inr l" "l_link l = Some (pr, iid, st)"
      "update_result (gitlab_reply w) = Inr ()"
      "out = (mark_processed
                (upsert_row cfg d (l_key_text l) iid
                   (if l_in_scope l then ''in-scope'' else ''out-of-scope'') (now_link w))
                fp (now_processed w),
              [PUT_issue iid (update_data (l_title l) (l_description l) (l_labels l)
                    (l_assignee_ids l) (l_state_event l))],
              Inr \<lparr> ok = True, action = ''updated'',
                    jira_key = Some (key data), gitlab_iid = Some iid \<rparr>)"
      "in_int64 iid"
  | (create_unstored) fp data l iid where
      "fingerprint py p = Inr fp" "\<not> is_processed d fp"
      "jira_extract p = Inr data" "truthy (key data)"
      "compute_locals cfg py d data = Inr l" "l_link l = None" "l_in_scope l"
      "create_result py (gitlab_reply w) = Inr iid" "\<not> in_int64 iid"
      "out = (d, [POST_issues (create_data (l_title l) (l_description l) (l_labels l)
                    (l_assignee_ids l)
                    (if l_state_event l = Some ''close'' then Some ''close'' else None))], Inl OverflowError)"
  | (update_unstored) fp data l pr iid st where
      "fingerprint py p = Inr fp" "\<not> is_processed d fp"
      "jira_extract p = Inr data" "truthy (key data)"
      "compute_locals cfg py d data = Inr l" "l_link l = Some (pr, iid, st)"
      "update_result (gitlab_reply w) = Inr ()" "\<not> in_int64 iid"
      "out = (d, [PUT_issue iid (update_data (l_title l) (l_description l) (l_labels l)
                    (l_assignee_ids l) (l_state_event l))], Inl OverflowError)"
proof (cases "fingerprint py p")
  case (Inl e)
  with assms show ?thesis
    by (intro fingerprint_error[of e]) (simp_all add: process_payload_def)
next
  case fp: (Inr fp)
  show ?thesis
  proof (cases "is_processed d fp")
    case True
    with fp assms show ?thesis
      by (intro dedup[of fp]) (simp_all add: process_payload_def)
  next
    case np: False
    show ?thesis
    proof (cases "jira_extract p")
      case (Inl e)
      with fp np assms show ?thesis
        by (intro extract_error[of fp e]) (simp_all add: process_payload_def)
    next
      case ex: (Inr data)
      show ?thesis
      proof (cases "truthy (key data)")
        case False
        with fp np ex assms show ?thesis
          by (intro skip_no_key[of fp data]) (simp_all add: process_payload_def)
      next
        case tk: True
        show ?thesis
        proof (cases "compute_locals cfg py d data")
          case (Inl e)
          with fp np ex tk assms show ?thesis
            by (intro locals_error[of fp data e]) (simp_all add: process_payload_def)
        next
          case cl: (Inr l)
          from fp np ex tk cl assms have s: "sync_issue cfg py d w fp data l = out"
            by (simp add: process_payload_def)
          from s show ?thesis
          proof (cases rule: sync_issue_cases)
            case skip_scope
            with fp np ex tk cl show ?thesis
              by (intro that(6)[of fp data l]) simp_all
          next
            case (create_failed e)
            with fp np ex tk cl show ?thesis
              by (intro that(7)[of fp data l e]) simp_all
          next
            case (created iid)
            with fp np ex tk cl show ?thesis
              by (intro that(8)[of fp data l iid]) simp_all
          next
            case (update_failed pr iid st e)
            with fp np ex tk cl show ?thesis
              by (intro that(9)[of fp data l pr iid st e]) simp_all
          next
            case (updated pr iid st)
            with fp np ex tk cl show ?thesis
              by (intro that(10)[of fp data l pr iid st]) simp_all
          next
            case (create_unstored iid)
            with fp np ex tk cl show ?thesis
              by (intro that(11)[of fp data l iid]) simp_all
          next
            case (update_unstored pr iid st)
            with fp np ex tk cl show ?thesis
              by (intro that(12)[of fp data l pr iid st]) simp_all
          qed
        qed
      qed
    qed
  qed
qed

lemma jira_webhook_cases [consumes 1, case_names unauthorized misconfigured bad_json handled]:
  assumes "jira_webhook cfg py d req w = out"
  obtains
    (unauthorized) "JIRA_SHARED_SECRET cfg \<noteq> []" "\<not> token_ok cfg req"
      "out = (d, [], Inl (HTTPException 401))"
  | (misconfigured) "JIRA_SHARED_SECRET cfg = [] \<or> token_ok cfg req"
      "GITLAB_BASE_URL cfg = [] \<or> GITLAB_PROJECT_ID cfg = [] \<or> GITLAB_TOKEN cfg = []"
      "out = (d, [], Inl (HTTPException 500))"
  | (bad_json) "JIRA_SHARED_SECRET cfg = [] \<or> token_ok cfg req"
      "GITLAB_BASE_URL cfg \<noteq> []" "GITLAB_PROJECT_ID cfg \<noteq> []" "GITLAB_TOKEN cfg \<noteq> []"
      "body req = None" "out = (d, [], Inl JSONDecodeError)"
  | (handled) p where "JIRA_SHARED_SECRET cfg = [] \<or> token_ok cfg req"
      "GITLAB_BASE_URL cfg \<noteq> []" "GITLAB_PROJECT_ID cfg \<noteq> []" "GITLAB_TOKEN cfg \<noteq> []"
      "body req = Some p" "out = process_payload cfg py d w p"
  using assms unfolding jira_webhook_def
  by (cases "body req") (auto split: if_splits)

section \<open>Store and target system\<close>

subsection \<open>Store\<close>

lemma links_mark_processed [simp]: "links (mark_processed d fp t) = links d"
  by (simp add: mark_processed_def)

lemma get_link_mark_processed [simp]: "get_link (mark_processed d fp t) k = get_link d k"
  by (simp add: get_link_def)

lemma is_processed_mark_processed [simp]:
  "is_processed (mark_processed d fp t) fp' \<longleftrightarrow> fp' = fp \<or> is_processed d fp'"
  by (auto simp: mark_processed_def is_processed_def)


lemma processed_upsert_row [simp]: "processed (upsert_row cfg d k iid st t) = processed d"
  by (simp add: upsert_row_def Let_def)

lemma is_processed_upsert_row [simp]:
  "is_processed (upsert_row cfg d k iid st t) fp = is_processed d fp"
  by (simp add: is_processed_def)

lemma map_of_replace_row:
  "map_of (map (\<lambda>(k, r). if k = jk then (k, row) else (k, r)) xs) k' =
     (if k' = jk then map_option (\<lambda>_. row) (map_of xs jk) else map_of xs k')"
proof (induction xs)
  case Nil
  show ?case by simp
next
  case (Cons a xs)
  obtain k0 r0 where a: "a = (k0, r0)" by (cases a)
  show ?case
    unfolding a using Cons by (cases "k' = jk") auto
qed

lemma keys_replace_row:
  "map fst (map (\<lambda>(k, r). if k = jk then (k, row) else (k, r)) xs) = map fst xs"
proof (induction xs)
  case Nil
  show ?case by simp
next
  case (Cons a xs)
  obtain k0 r0 where a: "a = (k0, r0)" by (cases a)
  show ?case
    unfolding a using Cons by simp
qed

lemma get_link_upsert_row:
  "get_link (upsert_row cfg d k iid st t) k' =
     (if k' = k then Some (GITLAB_PROJECT_ID cfg, iid, st) else get_link d k')"
proof (cases "k \<in> set (map fst (links d))")
  case True
  then obtain r where "map_of (links d) k = Some r"
    by (metis map_of_eq_None_iff not_None_eq set_map)
  with True show ?thesis
    by (simp add: get_link_def upsert_row_def Let_def map_of_replace_row del: set_map)
next
  case False
  then have "map_of (links d) k = None"
    by (simp add: map_of_eq_None_iff)
  with False show ?thesis
    by (auto simp: get_link_def upsert_row_def Let_def map_add_def simp del: set_map
        split: option.splits)
qed

lemma keys_upsert_row:
  "map fst (links (upsert_row cfg d k iid st t)) =
     (if k \<in> set (map fst (links d)) then map fst (links d) else map fst (links d) @ [k])"
proof (cases "k \<in> set (map fst (links d))")
  case True
  then show ?thesis
    using keys_replace_row[of k _ "links d"]
    by (simp add: upsert_row_def Let_def del: set_map map_map)
next
  case False
  then show ?thesis
    by (simp add: upsert_row_def Let_def del: set_map)
qed

lemma distinct_keys_upsert_row:
  "distinct (map fst (links d)) \<Longrightarrow> distinct (map fst (links (upsert_row cfg d k iid st t)))"
  unfolding keys_upsert_row by simp

subsection \<open>Answers of the target system\<close>

lemma create_result_failure:
  "300 \<le> sc \<Longrightarrow> create_result py (Reply sc b) = Inl (HTTPException 502)"
  by (simp add: create_result_def)

lemma update_result_failure:
  "300 \<le> sc \<Longrightarrow> update_result (Reply sc b) = Inl (HTTPException 502)"
  by (simp add: update_result_def)

lemma sync_issue_calls_indep:
  "fst (snd (sync_issue cfg py d w fp data l)) = fst (snd (sync_issue cfg py d w' fp data l))"
  by (auto simp: sync_issue_def gitlab_create_issue_def gitlab_update_issue_def
      split: option.splits sum.splits)

lemma process_payload_calls_indep:
  "fst (snd (process_payload cfg py d w p)) = fst (snd (process_payload cfg py d w' p))"
  by (simp add: process_payload_def sync_issue_calls_indep[of cfg py d w _ _ _ w']
      split: sum.splits)

lemma jira_webhook_calls_indep:
  "fst (snd (jira_webhook cfg py d req w)) = fst (snd (jira_webhook cfg py d req w'))"
  by (simp add: jira_webhook_def process_payload_calls_indep[of cfg py d w _ w']
      split: option.splits)

section \<open>Upstream failure\<close>

text \<open>
  C2. Whenever a delivery issues a create or update call and the target system answers it
  with a failure status (300 or above), the request ends with an \<^verbatim>\<open>HTTPException\<close> of
  status 502 and the store is left as it was: no fingerprint is marked processed and no
  link is created or updated. A redelivery of the same request therefore issues the same
  call again, whatever the target system then answers.
\<close>

theorem upstream_failure_aborts:
  assumes run: "jira_webhook cfg py d req w = (d', calls, res)"
    and issued: "calls \<noteq> []"
    and reply: "gitlab_reply w = Reply sc b"
    and failed: "300 \<le> sc"
  shows "res = Inl (HTTPException 502) \<and> d' = d
    \<and> (\<forall>w'. fst (snd (jira_webhook cfg py d' req w')) = calls)"
proof -
  have a: "res = Inl (HTTPException 502) \<and> d' = d"
    using run
  proof (cases rule: jira_webhook_cases)
    case (handled p)
    from handled(6)[symmetric] show ?thesis
      using issued reply failed
      by (cases rule: process_payload_cases)
        (auto simp: create_result_failure update_result_failure)
  qed (use issued in auto)
  have "fst (snd (jira_webhook cfg py d req w')) = calls" for w'
    using jira_webhook_calls_indep[of cfg py d req w' w] run by simp
  with a show ?thesis by simp
qed

theorem upstream_failure_aborts_example:
  "jira_webhook example_environ example_builtins empty_db request_alice world_failed
     = (empty_db, [POST_issues \<lparr> data_title = JStr ''Fix it'', data_description = JStr (''Broken'' @ [CHR 10, CHR 10] @ ''---'' @ [CHR 10] @ ''JIRA_KEY: PROJ-1''),
        data_labels = ''bug,jira:status:Done,sync:in-scope'', data_assignee_ids = Some (FormIds [11]), data_state_event = Some ''close'' \<rparr>], Inl (HTTPException 502))
   \<and> fst (snd (jira_webhook example_environ example_builtins empty_db request_alice world_created))
     = [POST_issues \<lparr> data_title = JStr ''Fix it'', data_description = JStr (''Broken'' @ [CHR 10, CHR 10] @ ''---'' @ [CHR 10] @ ''JIRA_KEY: PROJ-1''),
        data_labels = ''bug,jira:status:Done,sync:in-scope'', data_assignee_ids = Some (FormIds [11]), data_state_event = Some ''close'' \<rparr>]"
proof -
  have r: "jira_webhook example_environ example_builtins empty_db request_alice world_failed
     = (empty_db, [POST_issues \<lparr> data_title = JStr ''Fix it'', data_description = JStr (''Broken'' @ [CHR 10, CHR 10] @ ''---'' @ [CHR 10] @ ''JIRA_KEY: PROJ-1''),
        data_labels = ''bug,jira:status:Done,sync:in-scope'', data_assignee_ids = Some (FormIds [11]), data_state_event = Some ''close'' \<rparr>], Inl (HTTPException 502))"
    by code_simp
  have w: "gitlab_reply world_failed = Reply 500 None"
    by (simp add: world_failed_def example_world_def)
  have "fst (snd (jira_webhook example_environ example_builtins empty_db request_alice world_created))
     = [POST_issues \<lparr> data_title = JStr ''Fix it'', data_description = JStr (''Broken'' @ [CHR 10, CHR 10] @ ''---'' @ [CHR 10] @ ''JIRA_KEY: PROJ-1''),
        data_labels = ''bug,jira:status:Done,sync:in-scope'', data_assignee_ids = Some (FormIds [11]), data_state_event = Some ''close'' \<rparr>]"
    using upstream_failure_aborts[OF r _ w] by simp
  with r show ?thesis by blast
qed

section \<open>Credential check\<close>

text \<open>
  The exceptions that the helpers raise are those of the dynamic typing; none of them is an
  \<^verbatim>\<open>HTTPException\<close>, so status 401 comes from the credential check only.
\<close>

lemma ebind_eq_Inl: "ebind m f = Inl e \<longleftrightarrow> m = Inl e \<or> (\<exists>x. m = Inr x \<and> f x = Inl e)"
  by (cases m) auto

lemma py_get_error: "py_get v k = Inl e \<Longrightarrow> e = AttributeError"
  by (cases v) auto

lemma get_or_error: "get_or v k dflt = Inl e \<Longrightarrow> e = AttributeError"
  by (auto simp: get_or_def ebind_eq_Inl dest: py_get_error)

lemma fingerprint_error: "fingerprint py p = Inl e \<Longrightarrow> e = AttributeError"
  unfolding fingerprint_def ebind_eq_Inl
  by (auto dest: py_get_error get_or_error split: if_splits)

lemma jira_assignee_error: "jira_assignee a = Inl e \<Longrightarrow> e = AttributeError"
  by (auto simp: jira_assignee_def ebind_eq_Inl dest: py_get_error split: if_splits)

lemma jira_extract_error: "jira_extract p = Inl e \<Longrightarrow> e = AttributeError"
  unfolding jira_extract_def ebind_eq_Inl
  by (auto dest: py_get_error get_or_error jira_assignee_error)

lemma sql_text_error: "sql_text py v = Inl e \<Longrightarrow> e = SqliteError \<or> e = OverflowError"
  by (cases v) (auto split: if_splits)

lemma py_contains_error: "py_contains v m = Inl e \<Longrightarrow> e = TypeError"
  by (cases v) auto

lemma build_description_error:
  "build_description cfg py k v = Inl e \<Longrightarrow> e = TypeError \<or> e = AttributeError"
  by (auto simp: build_description_def Let_def dest: py_contains_error
      split: sum.splits bool.splits json.splits if_splits)

lemma state_event_from_status_error:
  "state_event_from_status cfg v = Inl e \<Longrightarrow> e = TypeError"
  by (auto simp: state_event_from_status_def split: json.splits if_splits)

lemma map_assignee_to_gitlab_ids_error:
  "map_assignee_to_gitlab_ids cfg py a sc = Inl e \<Longrightarrow> e = TypeError \<or> e = AttributeError"
  by (auto simp: map_assignee_to_gitlab_ids_def
      split: json.splits if_splits option.splits sum.splits)

lemma compute_locals_error:
  "compute_locals cfg py d data = Inl e \<Longrightarrow>
     e = SqliteError \<or> e = OverflowError \<or> e = TypeError \<or> e = AttributeError"
  unfolding compute_locals_def Let_def ebind_eq_Inl
  by (auto dest: sql_text_error build_description_error state_event_from_status_error
      map_assignee_to_gitlab_ids_error)

lemma py_getitem_error: "py_getitem v k = Inl e \<Longrightarrow> e = KeyError \<or> e = TypeError"
  by (cases v) (auto split: option.splits)

lemma py_int_error: "py_int py v = Inl e \<Longrightarrow> e = ValueError \<or> e = TypeError"
  by (cases v) (auto split: option.splits)

lemma create_result_error:
  "create_result py r = Inl e \<Longrightarrow> e \<noteq> HTTPException 401"
  by (auto simp: create_result_def ebind_eq_Inl dest: py_getitem_error py_int_error
      split: reply.splits if_splits option.splits)

lemma update_result_error:
  "update_result r = Inl e \<Longrightarrow> e \<noteq> HTTPException 401"
  by (auto simp: update_result_def split: reply.splits if_splits)

lemma process_payload_not_unauthorized:
  "snd (snd (process_payload cfg py d w p)) \<noteq> Inl (HTTPException 401)"
proof -
  have "snd (snd out) \<noteq> Inl (HTTPException 401)"
    if "process_payload cfg py d w p = out" for out
    using that
    by (cases rule: process_payload_cases)
      (auto dest: fingerprint_error jira_extract_error compute_locals_error
        create_result_error update_result_error)
  then show ?thesis by simp
qed

text \<open>
  C10. The request ends with status 401 exactly when the configured shared secret is not
  empty and neither the header token nor the query token equals it; a request so rejected
  leaves the store unchanged and makes no call. With an empty secret the outcome does not
  depend on the tokens at all. Two requests with the same body that both pass the check
  have the same outcome, so the tokens play no part after the check.
\<close>

theorem shared_secret_check:
  "(snd (snd (jira_webhook cfg py d req w)) = Inl (HTTPException 401)
      \<longleftrightarrow> JIRA_SHARED_SECRET cfg \<noteq> []
          \<and> x_sync_token req \<noteq> Some (JIRA_SHARED_SECRET cfg)
          \<and> query_token req \<noteq> Some (JIRA_SHARED_SECRET cfg))
   \<and> (snd (snd (jira_webhook cfg py d req w)) = Inl (HTTPException 401)
      \<longrightarrow> jira_webhook cfg py d req w = (d, [], Inl (HTTPException 401)))
   \<and> (JIRA_SHARED_SECRET cfg = [] \<longrightarrow>
        jira_webhook cfg py d (req\<lparr>x_sync_token := h, query_token := q\<rparr>) w
          = jira_webhook cfg py d req w)
   \<and> (snd (snd (jira_webhook cfg py d req w)) \<noteq> Inl (HTTPException 401)
        \<and> snd (snd (jira_webhook cfg py d req' w)) \<noteq> Inl (HTTPException 401)
        \<and> body req' = body req
      \<longrightarrow> jira_webhook cfg py d req' w = jira_webhook cfg py d req w)"
proof -
  have iff: "snd (snd (jira_webhook cfg py d r w)) = Inl (HTTPException 401)
      \<longleftrightarrow> JIRA_SHARED_SECRET cfg \<noteq> [] \<and> \<not> token_ok cfg r" for r
    using process_payload_not_unauthorized[of cfg py d w]
    by (auto simp: jira_webhook_def split: option.splits)
  have rej: "JIRA_SHARED_SECRET cfg \<noteq> [] \<and> \<not> token_ok cfg r
      \<Longrightarrow> jira_webhook cfg py d r w = (d, [], Inl (HTTPException 401))" for r
    by (simp add: jira_webhook_def)
  have same: "jira_webhook cfg py d r' w = jira_webhook cfg py d r w"
    if "JIRA_SHARED_SECRET cfg = [] \<or> token_ok cfg r"
      "JIRA_SHARED_SECRET cfg = [] \<or> token_ok cfg r'" "body r' = body r" for r r'
    using that by (auto simp: jira_webhook_def)
  show ?thesis
    using iff[of req] iff[of req'] rej[of req]
      same[of req "req\<lparr>x_sync_token := h, query_token := q\<rparr>"] same[of req req']
    by (auto simp: token_ok_def)
qed

theorem shared_secret_check_example:
  "jira_webhook secured_environ example_builtins empty_db (request_alice\<lparr>x_sync_token := Some ''guess''\<rparr>)
       world_created
     = (empty_db, [], Inl (HTTPException 401))
   \<and> snd (snd (jira_webhook secured_environ example_builtins empty_db
                   (request_alice\<lparr>query_token := Some ''s3cret''\<rparr>) world_created))
     \<noteq> Inl (HTTPException 401)
   \<and> jira_webhook example_environ example_builtins empty_db
        (request_alice\<lparr>x_sync_token := Some ''guess'', query_token := Some ''other''\<rparr>)
        world_created
     = jira_webhook example_environ example_builtins empty_db request_alice world_created"
proof -
  let ?guess = "request_alice\<lparr>x_sync_token := Some ''guess''\<rparr>"
  let ?right = "request_alice\<lparr>query_token := Some ''s3cret''\<rparr>"
  have s: "JIRA_SHARED_SECRET secured_environ \<noteq> []"
    by (simp add: JIRA_SHARED_SECRET_def secured_environ_def example_environ_def default_environ_def)
  have n: "JIRA_SHARED_SECRET example_environ = []"
    by (simp add: JIRA_SHARED_SECRET_def example_environ_def default_environ_def)
  have g: "x_sync_token ?guess \<noteq> Some (JIRA_SHARED_SECRET secured_environ)"
      "query_token ?guess \<noteq> Some (JIRA_SHARED_SECRET secured_environ)"
    by (simp_all add: request_alice_def example_request_def JIRA_SHARED_SECRET_def
        secured_environ_def example_environ_def default_environ_def)
  have r: "query_token ?right = Some (JIRA_SHARED_SECRET secured_environ)"
    by (simp add: JIRA_SHARED_SECRET_def secured_environ_def example_environ_def
        default_environ_def)
  from shared_secret_check[where cfg=secured_environ and py=example_builtins and d=empty_db and req="?guess"
      and w=world_created and h=None and q=None and req'="?guess"]
    s g
  have a: "jira_webhook secured_environ example_builtins empty_db ?guess world_created
     = (empty_db, [], Inl (HTTPException 401))"
    by blast
  from shared_secret_check[where cfg=secured_environ and py=example_builtins and d=empty_db and req="?right"
      and w=world_created and h=None and q=None and req'="?right"]
    r
  have b: "snd (snd (jira_webhook secured_environ example_builtins empty_db ?right world_created))
     \<noteq> Inl (HTTPException 401)"
    by blast
  from shared_secret_check[where cfg=example_environ and py=example_builtins and d=empty_db and req=request_alice
      and w=world_created and h="Some ''guess''" and q="Some ''other''" and req'=request_alice] n
  have c: "jira_webhook example_environ example_builtins empty_db
        (request_alice\<lparr>x_sync_token := Some ''guess'', query_token := Some ''other''\<rparr>)
        world_created
     = jira_webhook example_environ example_builtins empty_db request_alice world_created"
    by blast
  from a b c show ?thesis by blast
qed

section \<open>Lifecycle transition on creation\<close>

lemma csv_items_nonempty: "x \<in> set (csv_items s) \<Longrightarrow> x \<noteq> []"
  by (auto simp: csv_items_def)

lemma done_status_nonempty: "s \<in> DONE_STATUSES cfg \<Longrightarrow> s \<noteq> []"
  by (auto simp: DONE_STATUSES_def dest: csv_items_nonempty)

lemma state_event_close_iff:
  "state_event_from_status cfg v = Inr (Some ''close'')
     \<longleftrightarrow> (\<exists>s. v = JStr s \<and> s \<in> DONE_STATUSES cfg)"
  using done_status_nonempty[of _ cfg]
  by (cases v) (auto simp: state_event_from_status_def)

lemma compute_locals_state_event:
  "compute_locals cfg py d data = Inr l
     \<Longrightarrow> state_event_from_status cfg (status data) = Inr (l_state_event l)"
  unfolding compute_locals_def Let_def ebind_eq_Inr by auto

lemma truthy_opt_close [simp]: "truthy_opt (Some ''close'') = Some ''close''"
  by (simp add: truthy_opt_def)

lemma truthy_opt_None [simp]: "truthy_opt None = None"
  by (simp add: truthy_opt_def)

text \<open>
  C9. Every creation call of a delivery carries \<^verbatim>\<open>state_event\<close> exactly when the
  transition computed from the normalized status is \<^verbatim>\<open>close\<close>, that is, when the status
  is a string of the configured done set, and then it carries \<^verbatim>\<open>close\<close>. When the computed
  transition is \<^verbatim>\<open>reopen\<close> or absent, the call carries no \<^verbatim>\<open>state_event\<close>; \<^verbatim>\<open>reopen\<close> is
  never passed on creation.
\<close>

theorem creation_passes_close_only:
  assumes run: "jira_webhook cfg py d req w = (d', calls, res)"
    and call: "POST_issues f \<in> set calls"
  shows "\<exists>p data se. body req = Some p \<and> jira_extract p = Inr data
      \<and> state_event_from_status cfg (status data) = Inr se
      \<and> data_state_event f = (if se = Some ''close'' then Some ''close'' else None)
      \<and> (se = Some ''close'' \<longleftrightarrow> (\<exists>s. status data = JStr s \<and> s \<in> DONE_STATUSES cfg))
      \<and> data_state_event f \<noteq> Some ''reopen''"
  using run
proof (cases rule: jira_webhook_cases)
  case (handled p)
  have *: ?thesis
    if ex: "jira_extract p = Inr data" and cl: "compute_locals cfg py d data = Inr l"
      and f: "f = create_data (l_title l) (l_description l) (l_labels l) (l_assignee_ids l)
                    (if l_state_event l = Some ''close'' then Some ''close'' else None)"
    for data l
  proof -
    have se: "state_event_from_status cfg (status data) = Inr (l_state_event l)"
      by (rule compute_locals_state_event[OF cl])
    have "data_state_event f
            = (if l_state_event l = Some ''close'' then Some ''close'' else None)"
      unfolding f by (simp add: create_data_def)
    moreover have "l_state_event l = Some ''close''
        \<longleftrightarrow> (\<exists>s. status data = JStr s \<and> s \<in> DONE_STATUSES cfg)"
      using state_event_close_iff[of cfg "status data"] se by simp
    ultimately show ?thesis
      using handled(5) ex se by auto
  qed
  from handled(6)[symmetric] show ?thesis
  proof (cases rule: process_payload_cases)
    case (create_failed fp data l e)
    with call show ?thesis
      by (intro *[of data l]) simp_all
  next
    case (created fp data l iid)
    with call show ?thesis
      by (intro *[of data l]) simp_all
  next
    case (create_unstored fp data l iid)
    with call show ?thesis
      by (intro *[of data l]) simp_all
  qed (use call in simp_all)
qed (use call in simp_all)

theorem creation_passes_close_only_example:
  "fst (snd (jira_webhook example_environ example_builtins empty_db request_alice world_created)) = [POST_issues \<lparr> data_title = JStr ''Fix it'', data_description = JStr (''Broken'' @ [CHR 10, CHR 10] @ ''---'' @ [CHR 10] @ ''JIRA_KEY: PROJ-1''),
        data_labels = ''bug,jira:status:Done,sync:in-scope'', data_assignee_ids = Some (FormIds [11]), data_state_event = Some ''close'' \<rparr>]
   \<and> ''Done'' \<in> DONE_STATUSES example_environ
   \<and> fst (snd (jira_webhook example_environ example_builtins empty_db request_in_progress world_created))
       = [POST_issues \<lparr> data_title = JStr ''Fix it'', data_description = JStr (''Broken'' @ [CHR 10, CHR 10] @ ''---'' @ [CHR 10] @ ''JIRA_KEY: PROJ-1''),
        data_labels = ''bug,jira:status:In Progress,sync:in-scope'', data_assignee_ids = Some (FormIds [11]), data_state_event = None \<rparr>]
   \<and> ''In Progress'' \<notin> DONE_STATUSES example_environ"
proof -
  let ?f = "\<lparr> data_title = JStr ''Fix it'', data_description = JStr (''Broken'' @ [CHR 10, CHR 10] @ ''---'' @ [CHR 10] @ ''JIRA_KEY: PROJ-1''),
        data_labels = ''bug,jira:status:Done,sync:in-scope'', data_assignee_ids = Some (FormIds [11]), data_state_event = Some ''close'' \<rparr>"
  let ?g = "\<lparr> data_title = JStr ''Fix it'', data_description = JStr (''Broken'' @ [CHR 10, CHR 10] @ ''---'' @ [CHR 10] @ ''JIRA_KEY: PROJ-1''),
        data_labels = ''bug,jira:status:In Progress,sync:in-scope'', data_assignee_ids = Some (FormIds [11]), data_state_event = None \<rparr>"
  have c1: "fst (snd (jira_webhook example_environ example_builtins empty_db request_alice world_created)) = [POST_issues ?f]"
    by code_simp
  have c2: "fst (snd (jira_webhook example_environ example_builtins empty_db request_in_progress world_created)) = [POST_issues ?g]"
    by code_simp
  have r1: "jira_webhook example_environ example_builtins empty_db request_alice world_created
      = (fst (jira_webhook example_environ example_builtins empty_db request_alice world_created), [POST_issues ?f],
         snd (snd (jira_webhook example_environ example_builtins empty_db request_alice world_created)))"
    by (simp add: prod_eq_iff c1)
  have r2: "jira_webhook example_environ example_builtins empty_db request_in_progress world_created
      = (fst (jira_webhook example_environ example_builtins empty_db request_in_progress world_created), [POST_issues ?g],
         snd (snd (jira_webhook example_environ example_builtins empty_db request_in_progress world_created)))"
    by (simp add: prod_eq_iff c2)
  have b1: "body request_alice = Some (example_payload alice ''Done'' ''2024-01-01'')"
    by (simp add: request_alice_def example_request_def)
  have b2: "body request_in_progress = Some (example_payload alice ''In Progress'' ''2024-01-03'')"
    by (simp add: request_in_progress_def example_request_def)
  have e1: "jira_extract (example_payload alice ''Done'' ''2024-01-01'') = Inr \<lparr> key = JStr ''PROJ-1'', summary = JStr ''Fix it'', description = JStr ''Broken'',
              status = JStr ''Done'', assignee = JStr ''alice'', labels = [JStr ''bug''] \<rparr>"
    by code_simp
  have e2: "jira_extract (example_payload alice ''In Progress'' ''2024-01-03'') = Inr \<lparr> key = JStr ''PROJ-1'', summary = JStr ''Fix it'', description = JStr ''Broken'',
              status = JStr ''In Progress'', assignee = JStr ''alice'', labels = [JStr ''bug''] \<rparr>"
    by code_simp
  have f: "data_state_event ?f = Some ''close''" and g: "data_state_event ?g = None"
    by simp_all
  from creation_passes_close_only[OF r1, of ?f] b1 e1 f
  have d1: "''Done'' \<in> DONE_STATUSES example_environ"
    by (auto split: if_splits)
  from creation_passes_close_only[OF r2, of ?g] b2 e2 g
  have d2: "''In Progress'' \<notin> DONE_STATUSES example_environ"
    by (auto split: if_splits)
  from c1 c2 d1 d2 show ?thesis by blast
qed

section \<open>State table of the orchestrator\<close>

lemma compute_locals_Inr:
  "compute_locals cfg py d data = Inr l \<longleftrightarrow>
     (\<exists>jk descr se ids.
        sql_text py (key data) = Inr jk
      \<and> build_description cfg py (key data) (py_or (description data) (JStr [])) = Inr descr
      \<and> state_event_from_status cfg (status data) = Inr se
      \<and> map_assignee_to_gitlab_ids cfg py (assignee data) (is_in_scope cfg (assignee data)) = Inr ids
      \<and> l = \<lparr> l_key_text = jk, l_in_scope = is_in_scope cfg (assignee data),
              l_link = get_link d jk, l_title = py_or (summary data) (key data),
              l_description = descr, l_state_event = se,
              l_labels = labels_merge cfg py (labels data) (status data)
                           (is_in_scope cfg (assignee data)),
              l_assignee_ids = ids \<rparr>)"
  unfolding compute_locals_def Let_def ebind_eq_Inr by auto

lemma compute_locals_fields:
  assumes "compute_locals cfg py d data = Inr l"
  shows "sql_text py (key data) = Inr (l_key_text l)"
    and "l_in_scope l = is_in_scope cfg (assignee data)"
    and "l_link l = get_link d (l_key_text l)"
    and "l_labels l = labels_merge cfg py (labels data) (status data) (l_in_scope l)"
    and "map_assignee_to_gitlab_ids cfg py (assignee data) (l_in_scope l) = Inr (l_assignee_ids l)"
    and "l_title l = py_or (summary data) (key data)"
    and "build_description cfg py (key data) (py_or (description data) (JStr []))
           = Inr (l_description l)"
  using assms unfolding compute_locals_Inr by auto

lemma labels_merge_scope_marker:
  "\<exists>xs. labels_merge cfg py ls st sc
          = xs @ [if sc then LABEL_IN_SCOPE cfg else LABEL_OUT_OF_SCOPE cfg]
      \<and> LABEL_IN_SCOPE cfg \<notin> set xs \<and> LABEL_OUT_OF_SCOPE cfg \<notin> set xs"
proof -
  define F where "F = filter (\<lambda>l. l \<noteq> LABEL_OUT_OF_SCOPE cfg \<and> l \<noteq> LABEL_IN_SCOPE cfg)
      (filter (\<lambda>l. \<not> prefix (LABEL_PREFIX_STATUS cfg) l) (stripped_labels ls)
        @ [status_label cfg py st])"
  define s where "s = (if sc then LABEL_IN_SCOPE cfg else LABEL_OUT_OF_SCOPE cfg)"
  have m: "labels_merge cfg py ls st sc = uniq {} (F @ [s])"
    unfolding labels_merge_def Let_def F_def s_def ..
  have n: "LABEL_IN_SCOPE cfg \<notin> set F" "LABEL_OUT_OF_SCOPE cfg \<notin> set F"
    unfolding F_def by auto
  then have "s \<notin> set F"
    by (simp add: s_def)
  then have "uniq {} (F @ [s]) = uniq {} F @ [s]"
    by (simp add: uniq_snoc)
  with m n show ?thesis
    unfolding s_def by (intro exI[of _ "uniq {} F"]) (simp add: uniq_set)
qed

lemma no_assignees_out_of_scope [simp]:
  "map_assignee_to_gitlab_ids cfg py a False = Inr []"
  by (simp add: map_assignee_to_gitlab_ids_def)

text \<open>
  C1. Take a delivery that runs to its response, whose fingerprint is not yet processed and
  whose normalized key is a non-empty string \<open>k\<close>. Its action and the state it leaves follow
  the state table. Without a link for \<open>k\<close> and out of scope: no call, the links unchanged.
  Without a link and in scope: one creation call, then a new link for \<open>k\<close> with the iid
  returned by the target system and state \<^verbatim>\<open>in-scope\<close>. With a link and in scope: one
  update call on the stored iid, and the link in state \<^verbatim>\<open>in-scope\<close>. With a link and out
  of scope: one update call on the stored iid that passes the empty assignee set and labels
  ending in the out-of-scope marker with no other scope marker, and the link in state
  \<^verbatim>\<open>out-of-scope\<close>.
\<close>

theorem orchestrator_state_table:
  assumes run: "jira_webhook cfg py d req w = (d', calls, Inr resp)"
    and body: "body req = Some p"
    and fp: "fingerprint py p = Inr fp"
    and fresh: "\<not> is_processed d fp"
    and ex: "jira_extract p = Inr data"
    and key: "key data = JStr k" "k \<noteq> []"
  shows
    "(get_link d k = None \<and> \<not> is_in_scope cfg (assignee data) \<longrightarrow>
        calls = [] \<and> links d' = links d \<and> action resp = ''skip_create_out_of_scope'')
   \<and> (get_link d k = None \<and> is_in_scope cfg (assignee data) \<longrightarrow>
        (\<exists>f iid. calls = [POST_issues f] \<and> create_result py (gitlab_reply w) = Inr iid
           \<and> links d' = links d @ [(k, \<lparr> gitlab_project_id = GITLAB_PROJECT_ID cfg,
                  gitlab_issue_iid = iid, last_synced_at = now_link w,
                  sync_state = ''in-scope'' \<rparr>)]
           \<and> get_link d' k = Some (GITLAB_PROJECT_ID cfg, iid, ''in-scope'')
           \<and> action resp = ''created'' \<and> gitlab_iid resp = Some iid))
   \<and> (\<forall>pr iid st. get_link d k = Some (pr, iid, st) \<and> is_in_scope cfg (assignee data) \<longrightarrow>
        (\<exists>f. calls = [PUT_issue iid f]
           \<and> get_link d' k = Some (GITLAB_PROJECT_ID cfg, iid, ''in-scope'')
           \<and> action resp = ''updated'' \<and> gitlab_iid resp = Some iid))
   \<and> (\<forall>pr iid st. get_link d k = Some (pr, iid, st) \<and> \<not> is_in_scope cfg (assignee data) \<longrightarrow>
        (\<exists>f xs. calls = [PUT_issue iid f]
           \<and> data_assignee_ids f = Some (FormStr [])
           \<and> data_labels f = join '','' (xs @ [LABEL_OUT_OF_SCOPE cfg])
           \<and> LABEL_IN_SCOPE cfg \<notin> set xs \<and> LABEL_OUT_OF_SCOPE cfg \<notin> set xs
           \<and> get_link d' k = Some (GITLAB_PROJECT_ID cfg, iid, ''out-of-scope'')
           \<and> action resp = ''updated'' \<and> gitlab_iid resp = Some iid))"
  using run
proof (cases rule: jira_webhook_cases)
  case (handled p')
  with body have p': "p' = p" by simp
  have tk: "truthy (key data)"
    using key by simp
  from handled(6)[symmetric] show ?thesis
    unfolding p'
  proof (cases rule: process_payload_cases)
    case (skip_scope fp' data' l)
    with ex have [simp]: "data' = data" by simp
    from compute_locals_fields[OF skip_scope(5)] key skip_scope
    show ?thesis by auto
  next
    case (created fp' data' l iid)
    with ex have [simp]: "data' = data" by simp
    from compute_locals_fields[OF created(5)] key created
    have kt: "l_key_text l = k" and sc: "is_in_scope cfg (assignee data)"
      and nl: "get_link d k = None" by auto
    from nl have "k \<notin> set (map fst (links d))"
      by (auto simp: get_link_def map_of_eq_None_iff split: option.splits)
    then have "links (upsert_row cfg d k iid ''in-scope'' (now_link w))
        = links d @ [(k, \<lparr> gitlab_project_id = GITLAB_PROJECT_ID cfg,
                  gitlab_issue_iid = iid, last_synced_at = now_link w,
                  sync_state = ''in-scope'' \<rparr>)]"
      by (simp add: upsert_row_def Let_def del: set_map)
    with created kt sc nl show ?thesis
      by (simp add: get_link_upsert_row)
  next
    case (updated fp' data' l pr iid st)
    with ex have [simp]: "data' = data" by simp
    note cf = compute_locals_fields[OF updated(5)]
    from cf key have kt: "l_key_text l = k" by simp
    from cf updated kt have lk: "get_link d k = Some (pr, iid, st)" by simp
    show ?thesis
    proof (cases "is_in_scope cfg (assignee data)")
      case True
      with updated kt lk cf show ?thesis
        by (simp add: get_link_upsert_row)
    next
      case False
      with cf have ids: "l_assignee_ids l = []" and ns: "\<not> l_in_scope l" by simp_all
      from labels_merge_scope_marker[of cfg py "labels data" "status data" False]
      obtain xs where xs: "l_labels l = xs @ [LABEL_OUT_OF_SCOPE cfg]"
          "LABEL_IN_SCOPE cfg \<notin> set xs" "LABEL_OUT_OF_SCOPE cfg \<notin> set xs"
        using cf(4) ns by auto
      have "data_assignee_ids (update_data (l_title l) (l_description l) (l_labels l)
                    (l_assignee_ids l) (l_state_event l)) = Some (FormStr [])"
        by (simp add: update_data_def ids)
      moreover have "data_labels (update_data (l_title l) (l_description l) (l_labels l)
                    (l_assignee_ids l) (l_state_event l)) = join '','' (xs @ [LABEL_OUT_OF_SCOPE cfg])"
        by (simp add: update_data_def xs(1))
      ultimately show ?thesis
        using updated kt lk False ns xs(2,3)
        by (simp add: get_link_upsert_row) blast
    qed
  qed (use fp fresh ex tk in simp_all)
qed simp_all

theorem orchestrator_state_table_example:
  "fst (snd (jira_webhook example_environ example_builtins empty_db request_bob world_ok)) = []
   \<and> links (fst (jira_webhook example_environ example_builtins empty_db request_bob world_ok)) = []
   \<and> get_link (fst (jira_webhook example_environ example_builtins empty_db request_alice world_created)) ''PROJ-1''
       = Some (''42'', 7, ''in-scope'')
   \<and> get_link (fst (jira_webhook example_environ example_builtins linked_db request_alice world_ok)) ''PROJ-1''
       = Some (''42'', 7, ''in-scope'')
   \<and> get_link (fst (jira_webhook example_environ example_builtins linked_db request_unassigned world_ok)) ''PROJ-1''
       = Some (''42'', 7, ''out-of-scope'')"
proof -
  have p: "GITLAB_PROJECT_ID example_environ = ''42''"
    by (simp add: GITLAB_PROJECT_ID_def example_environ_def default_environ_def)
  have none: "get_link empty_db ''PROJ-1'' = None"
    by code_simp
  have some: "get_link linked_db ''PROJ-1'' = Some (''42'', 7, ''in-scope'')"
    by code_simp
  have sa: "is_in_scope example_environ (JStr ''alice'')" and sb: "\<not> is_in_scope example_environ (JStr ''bob'')"
    and sn: "\<not> is_in_scope example_environ JNull"
    by code_simp+
  have cr: "create_result example_builtins (gitlab_reply world_created) = Inr 7"
    by code_simp
  have res1: "snd (snd (jira_webhook example_environ example_builtins empty_db request_bob world_ok)) = Inr \<lparr> ok = True, action = ''skip_create_out_of_scope'', jira_key = Some (JStr ''PROJ-1''), gitlab_iid = None \<rparr>"
    by code_simp
  have run1: "jira_webhook example_environ example_builtins empty_db request_bob world_ok
      = (fst (jira_webhook example_environ example_builtins empty_db request_bob world_ok), fst (snd (jira_webhook example_environ example_builtins empty_db request_bob world_ok)), Inr \<lparr> ok = True, action = ''skip_create_out_of_scope'', jira_key = Some (JStr ''PROJ-1''), gitlab_iid = None \<rparr>)"
    by (simp add: prod_eq_iff res1)
  have body1: "body request_bob = Some (example_payload bob ''Done'' ''2024-01-01'')"
    by (simp add: request_bob_def example_request_def)
  have fp1: "fingerprint example_builtins (example_payload bob ''Done'' ''2024-01-01'') = Inr ''jira:issue_updated|PROJ-1|2024-01-01''"
    by code_simp
  have fresh1: "\<not> is_processed empty_db ''jira:issue_updated|PROJ-1|2024-01-01''"
    by code_simp
  have ex1: "jira_extract (example_payload bob ''Done'' ''2024-01-01'') = Inr \<lparr> key = JStr ''PROJ-1'', summary = JStr ''Fix it'', description = JStr ''Broken'',
              status = JStr ''Done'', assignee = JStr ''bob'', labels = [JStr ''bug''] \<rparr>"
    by code_simp
  have res2: "snd (snd (jira_webhook example_environ example_builtins empty_db request_alice world_created)) = Inr \<lparr> ok = True, action = ''created'', jira_key = Some (JStr ''PROJ-1''), gitlab_iid = Some 7 \<rparr>"
    by code_simp
  have run2: "jira_webhook example_environ example_builtins empty_db request_alice world_created
      = (fst (jira_webhook example_environ example_builtins empty_db request_alice world_created), fst (snd (jira_webhook example_environ example_builtins empty_db request_alice world_created)), Inr \<lparr> ok = True, action = ''created'', jira_key = Some (JStr ''PROJ-1''), gitlab_iid = Some 7 \<rparr>)"
    by (simp add: prod_eq_iff res2)
  have body2: "body request_alice = Some (example_payload alice ''Done'' ''2024-01-01'')"
    by (simp add: request_alice_def example_request_def)
  have fp2: "fingerprint example_builtins (example_payload alice ''Done'' ''2024-01-01'') = Inr ''jira:issue_updated|PROJ-1|2024-01-01''"
    by code_simp
  have fresh2: "\<not> is_processed empty_db ''jira:issue_updated|PROJ-1|2024-01-01''"
    by code_simp
  have ex2: "jira_extract (example_payload alice ''Done'' ''2024-01-01'') = Inr \<lparr> key = JStr ''PROJ-1'', summary = JStr ''Fix it'', description = JStr ''Broken'',
              status = JStr ''Done'', assignee = JStr ''alice'', labels = [JStr ''bug''] \<rparr>"
    by code_simp
  have res3: "snd (snd (jira_webhook example_environ example_builtins linked_db request_alice world_ok)) = Inr \<lparr> ok = True, action = ''updated'', jira_key = Some (JStr ''PROJ-1''), gitlab_iid = Some 7 \<rparr>"
    by code_simp
  have run3: "jira_webhook example_environ example_builtins linked_db request_alice world_ok
      = (fst (jira_webhook example_environ example_builtins linked_db request_alice world_ok), fst (snd (jira_webhook example_environ example_builtins linked_db request_alice world_ok)), Inr \<lparr> ok = True, action = ''updated'', jira_key = Some (JStr ''PROJ-1''), gitlab_iid = Some 7 \<rparr>)"
    by (simp add: prod_eq_iff res3)
  have body3: "body request_alice = Some (example_payload alice ''Done'' ''2024-01-01'')"
    by (simp add: request_alice_def example_request_def)
  have fp3: "fingerprint example_builtins (example_payload alice ''Done'' ''2024-01-01'') = Inr ''jira:issue_updated|PROJ-1|2024-01-01''"
    by code_simp
  have fresh3: "\<not> is_processed linked_db ''jira:issue_updated|PROJ-1|2024-01-01''"
    by code_simp
  have ex3: "jira_extract (example_payload alice ''Done'' ''2024-01-01'') = Inr \<lparr> key = JStr ''PROJ-1'', summary = JStr ''Fix it'', description = JStr ''Broken'',
              status = JStr ''Done'', assignee = JStr ''alice'', labels = [JStr ''bug''] \<rparr>"
    by code_simp
  have res4: "snd (snd (jira_webhook example_environ example_builtins linked_db request_unassigned world_ok)) = Inr \<lparr> ok = True, action = ''updated'', jira_key = Some (JStr ''PROJ-1''), gitlab_iid = Some 7 \<rparr>"
    by code_simp
  have run4: "jira_webhook example_environ example_builtins linked_db request_unassigned world_ok
      = (fst (jira_webhook example_environ example_builtins linked_db request_unassigned world_ok), fst (snd (jira_webhook example_environ example_builtins linked_db request_unassigned world_ok)), Inr \<lparr> ok = True, action = ''updated'', jira_key = Some (JStr ''PROJ-1''), gitlab_iid = Some 7 \<rparr>)"
    by (simp add: prod_eq_iff res4)
  have body4: "body request_unassigned = Some (example_payload JNull ''Done'' ''2024-01-02'')"
    by (simp add: request_unassigned_def example_request_def)
  have fp4: "fingerprint example_builtins (example_payload JNull ''Done'' ''2024-01-02'') = Inr ''jira:issue_updated|PROJ-1|2024-01-02''"
    by code_simp
  have fresh4: "\<not> is_processed linked_db ''jira:issue_updated|PROJ-1|2024-01-02''"
    by code_simp
  have ex4: "jira_extract (example_payload JNull ''Done'' ''2024-01-02'') = Inr \<lparr> key = JStr ''PROJ-1'', summary = JStr ''Fix it'', description = JStr ''Broken'',
              status = JStr ''Done'', assignee = JNull, labels = [JStr ''bug''] \<rparr>"
    by code_simp

  from orchestrator_state_table[OF run1 body1 fp1 fresh1 ex1] none sb
  have a: "fst (snd (jira_webhook example_environ example_builtins empty_db request_bob world_ok)) = []
      \<and> links (fst (jira_webhook example_environ example_builtins empty_db request_bob world_ok)) = links empty_db"
    by simp
  from orchestrator_state_table[OF run2 body2 fp2 fresh2 ex2] none sa cr
  have b: "get_link (fst (jira_webhook example_environ example_builtins empty_db request_alice world_created)) ''PROJ-1''
       = Some (''42'', 7, ''in-scope'')"
    by (auto simp: p)
  from orchestrator_state_table[OF run3 body3 fp3 fresh3 ex3] some sa
  have c: "get_link (fst (jira_webhook example_environ example_builtins linked_db request_alice world_ok)) ''PROJ-1''
       = Some (''42'', 7, ''in-scope'')"
    by (auto simp: p)
  from orchestrator_state_table[OF run4 body4 fp4 fresh4 ex4] some sn
  have d: "get_link (fst (jira_webhook example_environ example_builtins linked_db request_unassigned world_ok)) ''PROJ-1''
       = Some (''42'', 7, ''out-of-scope'')"
    by (auto simp: p)
  from a b c d show ?thesis
    by (simp add: empty_db_def)
qed

section \<open>Fingerprints and repeated deliveries\<close>

subsection \<open>The fingerprint as a formula\<close>

lemma py_get_Inr: "py_get v k = Inr x \<Longrightarrow> \<exists>kvs. v = JObj kvs \<and> x = raw_field v [k]"
  by (cases v) (auto split: option.splits)

lemma get_or_Inr:
  "get_or v k dflt = Inr x \<Longrightarrow> \<exists>kvs. v = JObj kvs \<and> x = py_or (raw_field v [k]) dflt"
  by (auto simp: get_or_def ebind_eq_Inr dest: py_get_Inr)

lemma raw_field_or_empty:
  assumes "ks \<noteq> []"
  shows "raw_field (py_or (raw_field (JObj kvs) [k]) (JObj [])) ks = raw_field (JObj kvs) (k # ks)"
proof (cases "map_of kvs k")
  case None
  with assms show ?thesis
    by (cases ks) (simp_all add: py_or_def)
next
  case (Some v)
  show ?thesis
  proof (cases "truthy v")
    case True
    with Some show ?thesis by (simp add: py_or_def)
  next
    case False
    with assms have "raw_field v ks = JNull"
      by (cases v; cases ks) auto
    moreover from assms have "raw_field (JObj []) ks = JNull"
      by (cases ks) auto
    ultimately show ?thesis
      using Some False by (simp add: py_or_def)
  qed
qed

lemma fingerprint_formula:
  assumes "fingerprint py p = Inr fp"
  shows "fp = fingerprint_of_fields py p"
proof -
  from assms obtain issue k flds updated we et where
    i: "get_or p ''issue'' (JObj []) = Inr issue"
    and k: "get_or issue ''key'' (JStr []) = Inr k"
    and f: "get_or issue ''fields'' (JObj []) = Inr flds"
    and u: "get_or flds ''updated'' (JStr []) = Inr updated"
    and w: "py_get p ''webhookEvent'' = Inr we"
    and e: "(if truthy we then Inr we else get_or p ''issue_event_type_name'' (JStr [])) = Inr et"
    and fp: "fp = py_format py et @ ''|'' @ py_format py k @ ''|'' @ py_format py updated"
    unfolding fingerprint_def ebind_eq_Inr by auto
  from get_or_Inr[OF i] obtain kvs where p: "p = JObj kvs"
    and issue: "issue = py_or (raw_field p [''issue'']) (JObj [])" by auto
  from get_or_Inr[OF k] have k': "k = py_or (raw_field issue [''key'']) (JStr [])" by auto
  from get_or_Inr[OF f] obtain ikvs where io: "issue = JObj ikvs"
    and flds: "flds = py_or (raw_field issue [''fields'']) (JObj [])" by auto
  from get_or_Inr[OF u] have u': "updated = py_or (raw_field flds [''updated'']) (JStr [])" by auto
  have 1: "raw_field issue [''key''] = raw_field p [''issue'', ''key'']"
    unfolding issue p by (rule raw_field_or_empty) simp
  have "raw_field flds [''updated''] = raw_field issue [''fields'', ''updated'']"
    unfolding flds io by (rule raw_field_or_empty) simp
  also have "\<dots> = raw_field p [''issue'', ''fields'', ''updated'']"
    unfolding issue p by (rule raw_field_or_empty) simp
  finally have 2: "raw_field flds [''updated''] = raw_field p [''issue'', ''fields'', ''updated'']" .
  from py_get_Inr[OF w] have we: "we = raw_field p [''webhookEvent'']" by auto
  have 3: "et = py_or we (py_or (raw_field p [''issue_event_type_name'']) (JStr []))"
    using e by (auto simp: py_or_def split: if_splits dest!: get_or_Inr)
  show ?thesis
    unfolding fp fingerprint_of_fields_def k' u' 1 2 3 we ..
qed

subsection \<open>One delivery and the processed table\<close>

lemma webhook_marks:
  assumes "jira_webhook cfg py d req w = (d', calls, Inr r)"
    and "delivery_fingerprint py req = Some fp"
  shows "is_processed d' fp"
  using assms(1)
proof (cases rule: jira_webhook_cases)
  case (handled p)
  with assms(2) have f: "fingerprint py p = Inr fp"
    by (simp add: delivery_fingerprint_def split: sum.splits)
  from handled(6)[symmetric] show ?thesis
    using f by (cases rule: process_payload_cases) auto
qed simp_all

lemma webhook_monotone:
  assumes "is_processed d fp"
  shows "is_processed (fst (jira_webhook cfg py d req w)) fp"
proof -
  obtain out where o: "jira_webhook cfg py d req w = out" by simp
  have "is_processed (fst out) fp"
    using o
  proof (cases rule: jira_webhook_cases)
    case (handled p)
    from handled(6)[symmetric] show ?thesis
      using assms by (cases rule: process_payload_cases) auto
  qed (use assms in simp_all)
  with o show ?thesis by simp
qed


lemma webhook_dedup:
  assumes "is_processed d fp" and "body req = Some p" and "fingerprint py p = Inr fp"
    and "JIRA_SHARED_SECRET cfg = [] \<or> token_ok cfg req"
    and "GITLAB_BASE_URL cfg \<noteq> []" "GITLAB_PROJECT_ID cfg \<noteq> []" "GITLAB_TOKEN cfg \<noteq> []"
  shows "jira_webhook cfg py d req w = (d, [], Inr dedup_response)"
  using assms by (auto simp: jira_webhook_def process_payload_def dedup_response_def)

lemma webhook_success_configured:
  assumes "jira_webhook cfg py d req w = (d', calls, Inr r)"
  shows "GITLAB_BASE_URL cfg \<noteq> [] \<and> GITLAB_PROJECT_ID cfg \<noteq> [] \<and> GITLAB_TOKEN cfg \<noteq> []"
  using assms by (cases rule: jira_webhook_cases) simp_all


subsection \<open>A sequence of deliveries\<close>

lemma deliveries_Cons:
  "deliveries cfg py d ((req, w) # rest) = (dn, outs) \<longleftrightarrow>
     (\<exists>outs'. deliveries cfg py (fst (jira_webhook cfg py d req w)) rest = (dn, outs')
        \<and> outs = jira_webhook cfg py d req w # outs')"
  by (auto simp: Let_def split: prod.splits)

lemma deliveries_monotone:
  "is_processed d fp \<Longrightarrow> deliveries cfg py d ds = (dn, outs) \<Longrightarrow> is_processed dn fp"
proof (induction ds arbitrary: d outs)
  case Nil
  then show ?case by simp
next
  case (Cons a ds)
  obtain req w where a: "a = (req, w)" by (cases a)
  from Cons.prems(2) obtain outs' where
    r: "deliveries cfg py (fst (jira_webhook cfg py d req w)) ds = (dn, outs')"
    unfolding a deliveries_Cons by blast
  from Cons.IH[OF webhook_monotone[OF Cons.prems(1)] r] show ?case .
qed



subsection \<open>Duplicate deliveries\<close>

text \<open>
  C3. Take a delivery that ran to its response, any deliveries after it, and then a
  delivery whose payload has the same fingerprint and which passes the credential check.
  The later one returns the dedup response, makes no call to the target system and leaves
  the store as it found it. The fingerprint of both payloads is the event type (the first
  truthy one of the two raw fields), the issue key and the \<^verbatim>\<open>updated\<close> stamp (the empty
  string when absent), separated by \<^verbatim>\<open>|\<close>.
\<close>

theorem duplicate_delivery_is_dedup:
  assumes first: "jira_webhook cfg py d req1 w1 = (d1, calls1, Inr r1)"
    and b1: "body req1 = Some p1" and f1: "fingerprint py p1 = Inr fp"
    and between: "deliveries cfg py d1 ds = (d2, outs)"
    and b2: "body req2 = Some p2" and f2: "fingerprint py p2 = Inr fp"
    and auth: "JIRA_SHARED_SECRET cfg = [] \<or> token_ok cfg req2"
  shows "jira_webhook cfg py d2 req2 w2 =
           (d2, [], Inr \<lparr> ok = True, action = ''dedup'', jira_key = None, gitlab_iid = None \<rparr>)
    \<and> fp = fingerprint_of_fields py p1 \<and> fp = fingerprint_of_fields py p2"
proof -
  have "delivery_fingerprint py req1 = Some fp"
    using b1 f1 by (simp add: delivery_fingerprint_def)
  from webhook_marks[OF first this] have "is_processed d1 fp" .
  from deliveries_monotone[OF this between] have m: "is_processed d2 fp" .
  from webhook_success_configured[OF first]
  have c: "GITLAB_BASE_URL cfg \<noteq> []" "GITLAB_PROJECT_ID cfg \<noteq> []" "GITLAB_TOKEN cfg \<noteq> []"
    by simp_all
  from webhook_dedup[OF m b2 f2 auth c]
  have "jira_webhook cfg py d2 req2 w2 = (d2, [], Inr dedup_response)" .
  with fingerprint_formula[OF f1] fingerprint_formula[OF f2] show ?thesis
    by (simp add: dedup_response_def)
qed

theorem duplicate_delivery_is_dedup_example:
  "jira_webhook example_environ example_builtins
      (fst (deliveries example_environ example_builtins
              (fst (jira_webhook example_environ example_builtins empty_db request_alice world_created))
              [(request_unassigned, world_ok)]))
      request_bob world_failed
    = (fst (deliveries example_environ example_builtins
              (fst (jira_webhook example_environ example_builtins empty_db request_alice world_created))
              [(request_unassigned, world_ok)]),
       [], Inr \<lparr> ok = True, action = ''dedup'', jira_key = None, gitlab_iid = None \<rparr>)
   \<and> fingerprint_of_fields example_builtins (example_payload bob ''Done'' ''2024-01-01'')
       = ''jira:issue_updated|PROJ-1|2024-01-01''"
proof -
  let ?first = "jira_webhook example_environ example_builtins empty_db request_alice world_created"
  have res: "snd (snd ?first)
      = Inr \<lparr> ok = True, action = ''created'', jira_key = Some (JStr ''PROJ-1''), gitlab_iid = Some 7 \<rparr>"
    by code_simp
  have first: "?first = (fst ?first, fst (snd ?first),
      Inr \<lparr> ok = True, action = ''created'', jira_key = Some (JStr ''PROJ-1''), gitlab_iid = Some 7 \<rparr>)"
    by (simp add: prod_eq_iff res)
  have b1: "body request_alice = Some (example_payload alice ''Done'' ''2024-01-01'')"
    by (simp add: request_alice_def example_request_def)
  have f1: "fingerprint example_builtins (example_payload alice ''Done'' ''2024-01-01'')
      = Inr ''jira:issue_updated|PROJ-1|2024-01-01''"
    by code_simp
  have between: "deliveries example_environ example_builtins (fst ?first) [(request_unassigned, world_ok)]
      = (fst (deliveries example_environ example_builtins (fst ?first) [(request_unassigned, world_ok)]),
         snd (deliveries example_environ example_builtins (fst ?first) [(request_unassigned, world_ok)]))"
    by simp
  have b2: "body request_bob = Some (example_payload bob ''Done'' ''2024-01-01'')"
    by (simp add: request_bob_def example_request_def)
  have f2: "fingerprint example_builtins (example_payload bob ''Done'' ''2024-01-01'')
      = Inr ''jira:issue_updated|PROJ-1|2024-01-01''"
    by code_simp
  have auth: "JIRA_SHARED_SECRET example_environ = [] \<or> token_ok example_environ request_bob"
    by (simp add: JIRA_SHARED_SECRET_def example_environ_def default_environ_def)
  note t = duplicate_delivery_is_dedup[OF first b1 f1 between b2 f2 auth, of world_failed]
  from t have a: "jira_webhook example_environ example_builtins
      (fst (deliveries example_environ example_builtins (fst ?first) [(request_unassigned, world_ok)]))
      request_bob world_failed
    = (fst (deliveries example_environ example_builtins (fst ?first) [(request_unassigned, world_ok)]),
       [], Inr \<lparr> ok = True, action = ''dedup'', jira_key = None, gitlab_iid = None \<rparr>)"
    by (rule conjunct1)
  from t have c: "''jira:issue_updated|PROJ-1|2024-01-01''
      = fingerprint_of_fields example_builtins (example_payload bob ''Done'' ''2024-01-01'')"
    by blast
  from a c[symmetric] show ?thesis
    by (rule conjI)
qed

subsection \<open>Calls that the target system accepted\<close>

lemma stored_iids_fit_mark_processed [simp]:
  "stored_iids_fit (mark_processed d fp t) = stored_iids_fit d"
  by (simp add: stored_iids_fit_def)









subsection \<open>The processed mark\<close>




section \<open>Links\<close>

lemma map_of_upsert_row:
  "map_of (links (upsert_row cfg d k iid st t)) k' =
     (if k' = k then Some \<lparr> gitlab_project_id = GITLAB_PROJECT_ID cfg, gitlab_issue_iid = iid,
                          last_synced_at = t, sync_state = st \<rparr>
      else map_of (links d) k')"
proof (cases "k \<in> set (map fst (links d))")
  case True
  then obtain r where "map_of (links d) k = Some r"
    by (metis map_of_eq_None_iff not_None_eq set_map)
  with True show ?thesis
    by (simp add: upsert_row_def Let_def map_of_replace_row del: set_map)
next
  case False
  then have "map_of (links d) k = None"
    by (simp add: map_of_eq_None_iff)
  with False show ?thesis
    by (auto simp: upsert_row_def Let_def map_add_def simp del: set_map split: option.splits)
qed

lemma get_link_Some:
  "get_link d k = Some (pr, iid, st) \<Longrightarrow>
     \<exists>r. map_of (links d) k = Some r \<and> gitlab_issue_iid r = iid \<and> gitlab_project_id r = pr"
  by (auto simp: get_link_def split: option.splits)

lemma same_target_refl [simp]: "same_target cfg r r"
  by (simp add: same_target_def)

lemma same_target_trans: "same_target cfg r r' \<Longrightarrow> same_target cfg r' r'' \<Longrightarrow> same_target cfg r r''"
  by (auto simp: same_target_def)

lemma webhook_keeps_target:
  assumes "map_of (links d) k = Some r"
  shows "\<exists>r'. map_of (links (fst (jira_webhook cfg py d req w))) k = Some r' \<and> same_target cfg r r'"
proof -
  obtain out where o: "jira_webhook cfg py d req w = out" by simp
  have "\<exists>r'. map_of (links (fst out)) k = Some r' \<and> same_target cfg r r'"
    using o
  proof (cases rule: jira_webhook_cases)
    case (handled p)
    from handled(6)[symmetric] show ?thesis
    proof (cases rule: process_payload_cases)
      case (created fp data l iid)
      from compute_locals_fields(3)[OF created(5)] created(6)
      have "get_link d (l_key_text l) = None" by simp
      with assms have "l_key_text l \<noteq> k"
        by (auto simp: get_link_def split: option.splits)
      with created assms show ?thesis
        by (simp add: map_of_upsert_row)
    next
      case (updated fp data l pr iid st)
      from compute_locals_fields(3)[OF updated(5)] updated(6)
      have g: "get_link d (l_key_text l) = Some (pr, iid, st)" by simp
      show ?thesis
      proof (cases "l_key_text l = k")
        case True
        with g assms have "gitlab_issue_iid r = iid"
          by (auto dest: get_link_Some)
        with updated True show ?thesis
          by (simp add: map_of_upsert_row same_target_def)
      next
        case False
        with updated assms show ?thesis
          by (simp add: map_of_upsert_row)
      qed
    qed (use assms in simp_all)
  qed (use assms in simp_all)
  with o show ?thesis by simp
qed

lemma webhook_keeps_keys_distinct:
  assumes "distinct (map fst (links d))"
  shows "distinct (map fst (links (fst (jira_webhook cfg py d req w))))"
proof -
  obtain out where o: "jira_webhook cfg py d req w = out" by simp
  have "distinct (map fst (links (fst out)))"
    using o
  proof (cases rule: jira_webhook_cases)
    case (handled p)
    from handled(6)[symmetric] show ?thesis
      using assms distinct_keys_upsert_row[OF assms]
      by (cases rule: process_payload_cases) simp_all
  qed (use assms in simp_all)
  with o show ?thesis by simp
qed

text \<open>
  C7. Rows of the link table are keyed by the source key, one row per key, and any run of
  deliveries keeps it so. A key that has a link keeps a link through any run of deliveries,
  with the same target issue iid; the project id of a link under the configured project
  stays as well. Only the state and the time stamp of the link change.
\<close>

theorem link_target_immutable:
  assumes pk: "distinct (map fst (links d))"
    and link: "map_of (links d) k = Some r"
    and run: "deliveries cfg py d ds = (d', outs)"
  shows "distinct (map fst (links d'))
    \<and> (\<exists>r'. map_of (links d') k = Some r'
          \<and> gitlab_issue_iid r' = gitlab_issue_iid r
          \<and> (gitlab_project_id r = GITLAB_PROJECT_ID cfg
               \<longrightarrow> gitlab_project_id r' = gitlab_project_id r))"
proof -
  have "distinct (map fst (links d')) \<and> (\<exists>r'. map_of (links d') k = Some r' \<and> same_target cfg r r')"
    using pk link run
  proof (induction ds arbitrary: d r outs)
    case Nil
    then show ?case by auto
  next
    case (Cons a ds)
    obtain req w where a: "a = (req, w)" by (cases a)
    from Cons.prems(3) obtain outs' where
      rest: "deliveries cfg py (fst (jira_webhook cfg py d req w)) ds = (d', outs')"
      unfolding a deliveries_Cons by blast
    from webhook_keeps_target[OF Cons.prems(2), of cfg py req w] obtain r1 where
      r1: "map_of (links (fst (jira_webhook cfg py d req w))) k = Some r1" "same_target cfg r r1"
      by blast
    from Cons.IH[OF webhook_keeps_keys_distinct[OF Cons.prems(1)] r1(1) rest]
    show ?case
      using r1(2) by (blast intro: same_target_trans)
  qed
  then show ?thesis
    unfolding same_target_def .
qed

theorem link_target_immutable_example:
  "distinct (map fst (links (fst (deliveries example_environ example_builtins linked_db
       [(request_unassigned, world_ok), (request_alice, world_ok)]))))
   \<and> map_option gitlab_issue_iid
        (map_of (links (fst (deliveries example_environ example_builtins linked_db
             [(request_unassigned, world_ok), (request_alice, world_ok)]))) ''PROJ-1'') = Some 7
   \<and> map_option gitlab_project_id
        (map_of (links (fst (deliveries example_environ example_builtins linked_db
             [(request_unassigned, world_ok), (request_alice, world_ok)]))) ''PROJ-1'') = Some ''42''"
proof -
  let ?ds = "[(request_unassigned, world_ok), (request_alice, world_ok)]"
  let ?r = "\<lparr> gitlab_project_id = ''42'', gitlab_issue_iid = 7, last_synced_at = ''t0'',
              sync_state = ''in-scope'' \<rparr>"
  have pk: "distinct (map fst (links linked_db))"
    by (simp add: linked_db_def)
  have link: "map_of (links linked_db) ''PROJ-1'' = Some ?r"
    by (simp add: linked_db_def)
  have run: "deliveries example_environ example_builtins linked_db ?ds
      = (fst (deliveries example_environ example_builtins linked_db ?ds),
         snd (deliveries example_environ example_builtins linked_db ?ds))"
    by simp
  have p: "GITLAB_PROJECT_ID example_environ = ''42''"
    by (simp add: GITLAB_PROJECT_ID_def example_environ_def default_environ_def)
  from link_target_immutable[OF pk link run] p show ?thesis
    by auto
qed

section \<open>Labels of the normalizer\<close>

lemma stripped_labels_strings: "stripped_labels (filter is_str ls) = stripped_labels ls"
  by (induction ls rule: stripped_labels.induct) auto

lemma jira_extract_labels:
  assumes "jira_extract p = Inr data"
  shows "labels data = (case raw_field p [''issue'', ''fields'', ''labels''] of
                          JList ls \<Rightarrow> ls | _ \<Rightarrow> [])"
proof -
  from assms obtain issue flds lbls where
    i: "get_or p ''issue'' (JObj []) = Inr issue"
    and f: "get_or issue ''fields'' (JObj []) = Inr flds"
    and l: "get_or flds ''labels'' (JList []) = Inr lbls"
    and d: "labels data = (case lbls of JList ls \<Rightarrow> ls | _ \<Rightarrow> [])"
    unfolding jira_extract_def ebind_eq_Inr by auto
  from get_or_Inr[OF i] obtain kvs where p: "p = JObj kvs"
    and issue: "issue = py_or (raw_field p [''issue'']) (JObj [])" by auto
  from get_or_Inr[OF f] obtain ikvs where io: "issue = JObj ikvs"
    and flds: "flds = py_or (raw_field issue [''fields'']) (JObj [])" by auto
  from get_or_Inr[OF l] have lb: "lbls = py_or (raw_field flds [''labels'']) (JList [])" by auto
  have "raw_field flds [''labels''] = raw_field issue [''fields'', ''labels'']"
    unfolding flds io by (rule raw_field_or_empty) simp
  also have "\<dots> = raw_field p [''issue'', ''fields'', ''labels'']"
    unfolding issue p by (rule raw_field_or_empty) simp
  finally have r: "raw_field flds [''labels''] = raw_field p [''issue'', ''fields'', ''labels'']" .
  show ?thesis
    unfolding d lb r
    by (cases "raw_field p [''issue'', ''fields'', ''labels'']") (auto simp: py_or_def)
qed

text \<open>
  C8. The labels of the normalized event are the raw labels field when that field is a
  list, all its elements kept, and the empty list when the field is absent or not a list.
  Elements that are not strings are dropped by label composition: composing from the
  normalized labels gives the same result as composing from their string elements only.
\<close>

theorem labels_normalization:
  assumes "jira_extract p = Inr data"
  shows "labels data = (case raw_field p [''issue'', ''fields'', ''labels''] of
                          JList ls \<Rightarrow> ls | _ \<Rightarrow> [])
    \<and> labels_merge cfg py (labels data) st sc
        = labels_merge cfg py (filter is_str (labels data)) st sc"
  using jira_extract_labels[OF assms]
  by (simp add: labels_merge_def stripped_labels_strings)

text \<open>
  C8, as stated for the normalizer alone, fails on a label list that holds a number: the
  normalized labels still hold it.
\<close>

theorem normalizer_keeps_non_strings:
  "raw_field mixed_labels_payload [''issue'', ''fields'', ''labels''] = JList [JInt 1, JStr ''bug'']
   \<and> map_sum id labels (jira_extract mixed_labels_payload) = Inr [JInt 1, JStr ''bug'']
   \<and> \<not> is_str (JInt 1)"
  by code_simp

theorem labels_normalization_example:
  "map_sum id labels (jira_extract mixed_labels_payload) = Inr [JInt 1, JStr ''bug'']
   \<and> labels_merge default_environ example_builtins [JInt 1, JStr ''bug''] (JStr ''Done'') True
       = labels_merge default_environ example_builtins [JStr ''bug''] (JStr ''Done'') True"
proof -
  have e: "jira_extract mixed_labels_payload
      = Inr \<lparr> key = JStr ''PROJ-1'', summary = JStr [], description = JStr [],
              status = JStr [], assignee = JNull, labels = [JInt 1, JStr ''bug''] \<rparr>"
    by code_simp
  then obtain data where d: "jira_extract mixed_labels_payload = Inr data"
    and l: "labels data = [JInt 1, JStr ''bug'']"
    by simp
  from labels_normalization[OF d, of default_environ example_builtins "JStr ''Done''" True]
  have "labels_merge default_environ example_builtins (labels data) (JStr ''Done'') True
       = labels_merge default_environ example_builtins (filter is_str (labels data))
           (JStr ''Done'') True"
    by blast
  then have "labels_merge default_environ example_builtins [JInt 1, JStr ''bug''] (JStr ''Done'') True
       = labels_merge default_environ example_builtins [JStr ''bug''] (JStr ''Done'') True"
    unfolding l by simp
  with e show ?thesis by simp
qed

end
